theory Spec2Isabelle
  imports Complex_Main
begin

section \<open>Python values used by the handlers\<close>

text \<open>
  Strings are lists of 8-bit characters (the Latin-1 range of Python's \<open>str\<close>).
  \<open>str.strip()\<close> removes leading and trailing whitespace; the whitespace characters of
  that range are the code points 9-13, 28-32, 133 and 160.
\<close>

definition is_space :: "char \<Rightarrow> bool" where
  "is_space c = ((of_char c :: nat) \<in> set [9, 10, 11, 12, 13, 28, 29, 30, 31, 32, 133, 160])"

definition strip :: "string \<Rightarrow> string" where
  "strip s = rev (dropWhile is_space (rev (dropWhile is_space s)))"

text \<open>\<open>str.lower()\<close> on the same range: A-Z and the accented capitals move up by 32.\<close>

definition lower_char :: "char \<Rightarrow> char" where
  "lower_char c =
     (let n = (of_char c :: nat)
      in if (65 \<le> n \<and> n \<le> 90) \<or> (192 \<le> n \<and> n \<le> 222 \<and> n \<noteq> 215)
         then char_of (n + 32) else c)"

definition lower :: "string \<Rightarrow> string" where
  "lower s = map lower_char s"

text \<open>\<open>sep.join(xs)\<close>.\<close>

fun join :: "string \<Rightarrow> string list \<Rightarrow> string" where
  "join sep [] = []"
| "join sep [x] = x"
| "join sep (x # y # ys) = x @ sep @ join sep (y # ys)"

text \<open>
  A request field read with \<open>data.get(k)\<close> is \<open>None\<close> when the key is absent. The
  handlers test presence with \<open>not data.get(k)\<close>, which is also true of the empty
  string and of the number 0. \<open>data.get("notes", "").strip()\<close> reads an absent field as
  the empty string. With the types \<open>string option\<close> and \<open>int option\<close> a field is
  absent or has a value of the type the handler expects.
\<close>

definition falsy_str :: "string option \<Rightarrow> bool" where
  "falsy_str v = (case v of None \<Rightarrow> True | Some x \<Rightarrow> x = [])"

definition falsy_int :: "int option \<Rightarrow> bool" where
  "falsy_int v = (case v of None \<Rightarrow> True | Some x \<Rightarrow> x = 0)"

definition get_stripped :: "string option \<Rightarrow> string" where
  "get_stripped v = strip (case v of None \<Rightarrow> [] | Some x \<Rightarrow> x)"

text \<open>
  The exceptions that no handler catches; the request is then answered 500 and its
  transaction is not committed.
\<close>

datatype pyexc = TypeError | AttributeError | IntegrityError | DataError | ZeroDivisionError

text \<open>
  The rejection reason of \<open>reject_payment\<close> is modelled with its JSON value: the key is
  absent, or its value is \<open>null\<close>, a string, or something else (a number, a boolean,
  an array or an object). \<open>data.get("notes", "")\<close> gives the empty string for an absent
  key only; \<open>.strip()\<close> exists on strings only and raises \<open>AttributeError\<close> on
  \<open>None\<close> and on every other value.
\<close>

datatype json_field = Absent | JsonNull | JsonString string | JsonOther

fun stripped_field :: "json_field \<Rightarrow> pyexc + string" where
  "stripped_field Absent = Inr (strip [])"
| "stripped_field (JsonString x) = Inr (strip x)"
| "stripped_field JsonNull = Inl AttributeError"
| "stripped_field JsonOther = Inl AttributeError"

text \<open>\<open>str(n)\<close> for an integer, used in the stored file name of a payment proof.\<close>

fun str_nat :: "nat \<Rightarrow> string" where
  "str_nat n = (if n < 10 then [char_of (48 + n)]
                else str_nat (n div 10) @ [char_of (48 + n mod 10)])"

definition str_int :: "int \<Rightarrow> string" where
  "str_int i = (if i < 0 then CHR ''-'' # str_nat (nat (- i)) else str_nat (nat i))"

subsection \<open>Numbers\<close>

text \<open>
  The handlers mix three Python number types. Columns declared \<open>db.Numeric(10, 2)\<close> in
  models.py (the price of a menu item, the unit price of an order item, the amount of a
  payment and the four money fields of an order) are loaded as \<open>decimal.Decimal\<close>;
  every \<open>to_dict\<close> of models.py converts them with \<open>float(...)\<close> before they go
  into JSON. The constants of config.py are \<open>int\<close>. True division of two ints, and
  \<open>float(...)\<close> of a request field, give a \<open>float\<close>.

  Python's \<open>Decimal\<close> accepts an \<open>int\<close> or a \<open>Decimal\<close> as the other operand of
  \<open>+\<close> and \<open>*\<close> and raises \<open>TypeError\<close> for a \<open>float\<close>. A float carries the
  rational number it denotes; the rounding of float arithmetic is not modelled (no handler
  path that completes depends on it), nor are the non-finite floats.
\<close>

datatype pynum = PyInt int | PyDecimal rat | PyFloat rat

fun py_add :: "pynum \<Rightarrow> pynum \<Rightarrow> pyexc + pynum" where
  "py_add (PyInt a) (PyInt b) = Inr (PyInt (a + b))"
| "py_add (PyInt a) (PyDecimal d) = Inr (PyDecimal (of_int a + d))"
| "py_add (PyDecimal d) (PyInt b) = Inr (PyDecimal (d + of_int b))"
| "py_add (PyDecimal d) (PyDecimal e) = Inr (PyDecimal (d + e))"
| "py_add (PyDecimal d) (PyFloat f) = Inl TypeError"
| "py_add (PyFloat f) (PyDecimal d) = Inl TypeError"
| "py_add (PyInt a) (PyFloat f) = Inr (PyFloat (of_int a + f))"
| "py_add (PyFloat f) (PyInt b) = Inr (PyFloat (f + of_int b))"
| "py_add (PyFloat f) (PyFloat g) = Inr (PyFloat (f + g))"

fun py_mul :: "pynum \<Rightarrow> pynum \<Rightarrow> pyexc + pynum" where
  "py_mul (PyInt a) (PyInt b) = Inr (PyInt (a * b))"
| "py_mul (PyInt a) (PyDecimal d) = Inr (PyDecimal (of_int a * d))"
| "py_mul (PyDecimal d) (PyInt b) = Inr (PyDecimal (d * of_int b))"
| "py_mul (PyDecimal d) (PyDecimal e) = Inr (PyDecimal (d * e))"
| "py_mul (PyDecimal d) (PyFloat f) = Inl TypeError"
| "py_mul (PyFloat f) (PyDecimal d) = Inl TypeError"
| "py_mul (PyInt a) (PyFloat f) = Inr (PyFloat (of_int a * f))"
| "py_mul (PyFloat f) (PyInt b) = Inr (PyFloat (f * of_int b))"
| "py_mul (PyFloat f) (PyFloat g) = Inr (PyFloat (f * g))"

text \<open>\<open>a / b\<close> on two ints is true division and gives a float.\<close>

definition int_truediv :: "int \<Rightarrow> int \<Rightarrow> pyexc + pynum" where
  "int_truediv a b = (if b = 0 then Inl ZeroDivisionError else Inr (PyFloat (of_int a / of_int b)))"

text \<open>
  The number a \<open>Numeric\<close> column holds for a Python value written to it (the rounding
  to the column's two decimal places is not modelled).
\<close>

fun numeric_value :: "pynum \<Rightarrow> rat" where
  "numeric_value (PyInt a) = of_int a"
| "numeric_value (PyDecimal d) = d"
| "numeric_value (PyFloat f) = f"

text \<open>Comparison of a float with an int is exact in Python.\<close>

fun py_less :: "pynum \<Rightarrow> pynum \<Rightarrow> bool" where
  "py_less a b = (numeric_value a < numeric_value b)"

section \<open>Data model (models.py) and configuration (config.py)\<close>

text \<open>
  One record per mapped class, with the columns the handlers read or write. Primary keys
  and foreign keys are Python ints. Timestamps and the display texts of a menu item are
  left out: no handler below branches on them. Of the sizes of the columns only the range
  of \<open>Cart.quantity\<close> is modelled (with the cart handlers); the range of the keys, the
  precision of \<open>Numeric\<close> and the length of \<open>String\<close> are not.
\<close>

record menu_item =
  mi_id :: int
  mi_price :: rat
  mi_is_available :: bool

record cart =
  cart_id :: int
  cart_session_id :: "string option"
  cart_user_id :: "int option"
  cart_menu_item_id :: int
  cart_quantity :: int
  cart_notes :: "string option"

record order =
  o_id :: int
  o_user_id :: int
  o_status :: string
  o_subtotal :: rat
  o_delivery_fee :: rat
  o_total_amount :: rat
  o_advance_amount :: rat
  o_delivery_address :: string
  o_notes :: "string option"
  o_admin_notes :: "string option"

record order_item =
  oi_id :: int
  oi_order_id :: int
  oi_menu_item_id :: int
  oi_quantity :: int
  oi_unit_price :: rat
  oi_notes :: "string option"

record payment =
  p_id :: int
  p_order_id :: int
  p_method :: string
  p_amount :: rat
  p_status :: string
  p_screenshot_url :: "string option"
  p_transaction_id :: "string option"
  p_notes :: "string option"

text \<open>The database: one list of rows per table, in the order the queries return them.\<close>

record db =
  menu_items :: "menu_item list"
  carts :: "cart list"
  orders :: "order list"
  order_items :: "order_item list"
  payments :: "payment list"

definition MIN_DELIVERY_FEE :: int where "MIN_DELIVERY_FEE = 40"
definition MAX_DELIVERY_FEE :: int where "MAX_DELIVERY_FEE = 80"
definition ADVANCE_PAYMENT_PERCENTAGE :: int where "ADVANCE_PAYMENT_PERCENTAGE = 20"

text \<open>\<open>ALLOWED_EXTENSIONS\<close> is a set in config.py; it is only tested for membership.\<close>

definition ALLOWED_EXTENSIONS :: "string list" where
  "ALLOWED_EXTENSIONS = [''png'', ''jpg'', ''jpeg'', ''gif'', ''webp'']"

text \<open>
  A handler answers with \<open>_bad_request(message, status_code)\<close> (400 by default, 404, 403
  or 409), or an exception escapes it and the framework answers 500. In both cases
  nothing was committed, so the database it returns is the one it was given.
\<close>

datatype error =
    BadRequest string
  | NotFound string
  | Forbidden string
  | Conflict string
  | Unhandled pyexc

fun http_status :: "error \<Rightarrow> nat" where
  "http_status (BadRequest m) = 400"
| "http_status (NotFound m) = 404"
| "http_status (Forbidden m) = 403"
| "http_status (Conflict m) = 409"
| "http_status (Unhandled e) = 500"

text \<open>The next value of an autoincrement primary key.\<close>

definition next_id :: "int list \<Rightarrow> int" where
  "next_id ids = fold max ids 0 + 1"

section \<open>Payments (routes/payments_api.py)\<close>

text \<open>
  The handlers run behind \<open>require_auth\<close> or \<open>require_admin\<close>; the user id of the
  session is an argument (\<open>uid\<close>) of the handlers that read it.
\<close>

definition valid_methods :: "string list" where
  "valid_methods = [''instapay'', ''vodafone_cash'', ''orange_money'', ''etisalat_wallet'', ''cod'']"

definition create_payment ::
  "int \<Rightarrow> int option \<Rightarrow> string option \<Rightarrow> string option \<Rightarrow> db \<Rightarrow> db \<times> (error + payment)" where
  "create_payment uid order_id_field method_field notes_field s =
    (let missing = (if falsy_int order_id_field then [''order_id''] else [])
                 @ (if falsy_str method_field then [''method''] else [])
     in if missing \<noteq> [] then (s, Inl (BadRequest (''Missing fields: '' @ join '', '' missing)))
     else
       let order_id = the order_id_field;
           method = the method_field;
           notes = get_stripped notes_field
       in if method \<notin> set valid_methods
          then (s, Inl (BadRequest (''Invalid payment method. Must be one of: '' @ join '', '' valid_methods)))
          else case find (\<lambda>r. o_id r = order_id \<and> o_user_id r = uid) (orders s) of
            None \<Rightarrow> (s, Inl (NotFound ''Order not found''))
          | Some order \<Rightarrow>
             (case find (\<lambda>p. p_order_id p = order_id) (payments s) of
                Some existing_payment \<Rightarrow> (s, Inl (Conflict ''Payment already exists for this order''))
              | None \<Rightarrow>
                 let payment = \<lparr> p_id = next_id (map p_id (payments s)),
                                 p_order_id = order_id,
                                 p_method = method,
                                 p_amount = o_advance_amount order,
                                 p_status = ''pending'',
                                 p_screenshot_url = None,
                                 p_transaction_id = None,
                                 p_notes = Some notes \<rparr>
                 in (s\<lparr>payments := payments s @ [payment]\<rparr>, Inr payment)))"

text \<open>
  \<open>allowed_file\<close>: the name has a dot and the text after the last dot, lowered, is on the
  allow-list.
\<close>

definition allowed_file :: "string \<Rightarrow> bool" where
  "allowed_file filename =
     (CHR ''.'' \<in> set filename \<and>
      lower (rev (takeWhile (\<lambda>c. c \<noteq> CHR ''.'') (rev filename))) \<in> set ALLOWED_EXTENSIONS)"

text \<open>
  \<open>upload_payment_proof\<close>. \<open>file\<close> is the file name of the uploaded part
  \<open>screenshot\<close>, \<open>None\<close> when the request has no such part. The result of werkzeug's
  \<open>secure_filename\<close> on that name (\<open>safe_name\<close>) and the formatted clock reading
  (\<open>timestamp\<close>) come from outside the repository and are arguments; writing the file
  to disk is not modelled.
\<close>

definition upload_payment_proof ::
  "string \<Rightarrow> string \<Rightarrow> int \<Rightarrow> int \<Rightarrow> string option \<Rightarrow> db \<Rightarrow> db \<times> (error + payment)" where
  "upload_payment_proof timestamp safe_name uid payment_id file s =
    (case find (\<lambda>p. p_id p = payment_id \<and>
                     list_ex (\<lambda>r. o_id r = p_order_id p \<and> o_user_id r = uid) (orders s))
               (payments s) of
       None \<Rightarrow> (s, Inl (NotFound ''Payment not found''))
     | Some payment \<Rightarrow>
        (case file of
           None \<Rightarrow> (s, Inl (BadRequest ''No file uploaded''))
         | Some filename \<Rightarrow>
            if filename = [] then (s, Inl (BadRequest ''No file selected''))
            else if \<not> allowed_file filename
            then (s, Inl (BadRequest (''File type not allowed. Allowed types: '' @ join '', '' ALLOWED_EXTENSIONS)))
            else
              let stored = ''payment_'' @ str_int payment_id @ ''_'' @ timestamp @ ''_'' @ safe_name;
                  payment' = payment\<lparr> p_screenshot_url := Some (''/static/uploads/payments/'' @ stored),
                                      p_status := ''pending'' \<rparr>
              in (s\<lparr>payments := map (\<lambda>p. if p_id p = payment_id then payment' else p) (payments s)\<rparr>,
                  Inr payment')))"


text \<open>
  \<open>reject_payment\<close>. The payment is looked up first; then
  \<open>notes = data.get("notes", "").strip()\<close>, which raises for a reason that is not a
  string.
\<close>

definition reject_payment ::
  "int \<Rightarrow> json_field \<Rightarrow> db \<Rightarrow> db \<times> (error + payment)" where
  "reject_payment payment_id notes_field s =
    (case find (\<lambda>p. p_id p = payment_id) (payments s) of
       None \<Rightarrow> (s, Inl (NotFound ''Payment not found''))
     | Some payment \<Rightarrow>
        (case stripped_field notes_field of
           Inl e \<Rightarrow> (s, Inl (Unhandled e))
         | Inr notes \<Rightarrow>
            if notes = [] then (s, Inl (BadRequest ''Rejection reason required''))
            else
              let payment' = payment\<lparr>p_status := ''rejected'', p_notes := Some notes\<rparr>
              in (s\<lparr>payments := map (\<lambda>p. if p_id p = payment_id then payment' else p) (payments s)\<rparr>,
                  Inr payment')))"

section \<open>Orders (routes/orders_api.py)\<close>

text \<open>
  \<open>sum(item.menu_item.price * item.quantity for item in cart_items)\<close>: the price is the
  \<open>Decimal\<close> of the menu item the cart row refers to (\<open>AttributeError\<close> if the
  relationship is empty), the quantity an int. The accumulator starts as the int 0.
\<close>

fun cart_subtotal :: "menu_item list \<Rightarrow> pynum \<Rightarrow> cart list \<Rightarrow> pyexc + pynum" where
  "cart_subtotal menu acc [] = Inr acc"
| "cart_subtotal menu acc (item # items) =
     (case find (\<lambda>m. mi_id m = cart_menu_item_id item) menu of
        None \<Rightarrow> Inl AttributeError
      | Some menu_item \<Rightarrow>
         (case py_mul (PyDecimal (mi_price menu_item)) (PyInt (cart_quantity item)) of
            Inl e \<Rightarrow> Inl e
          | Inr line \<Rightarrow>
             (case py_add acc line of
                Inl e \<Rightarrow> Inl e
              | Inr acc' \<Rightarrow> cart_subtotal menu acc' items)))"

text \<open>
  The loop that creates one \<open>OrderItem\<close> per cart row, with the menu item's current
  price as \<open>unit_price\<close>; \<open>n\<close> is the next free primary key of the table.
\<close>

fun make_order_items :: "menu_item list \<Rightarrow> int \<Rightarrow> int \<Rightarrow> cart list \<Rightarrow> pyexc + order_item list" where
  "make_order_items menu order_id n [] = Inr []"
| "make_order_items menu order_id n (cart_item # rest) =
     (case find (\<lambda>m. mi_id m = cart_menu_item_id cart_item) menu of
        None \<Rightarrow> Inl AttributeError
      | Some menu_item \<Rightarrow>
         (case make_order_items menu order_id (n + 1) rest of
            Inl e \<Rightarrow> Inl e
          | Inr others \<Rightarrow>
             Inr (\<lparr> oi_id = n,
                    oi_order_id = order_id,
                    oi_menu_item_id = cart_menu_item_id cart_item,
                    oi_quantity = cart_quantity cart_item,
                    oi_unit_price = mi_price menu_item,
                    oi_notes = cart_notes cart_item \<rparr> # others)))"

text \<open>
  \<open>create_order\<close>, line by line: the subtotal (a \<open>Decimal\<close> for a non-empty cart),
  \<open>delivery_fee = Config.MIN_DELIVERY_FEE\<close> (an int),
  \<open>total_amount = subtotal + delivery_fee\<close>, and
  \<open>advance_amount = total_amount * (Config.ADVANCE_PAYMENT_PERCENTAGE / 100)\<close>, whose
  second factor is the float that \<open>20 / 100\<close> gives. Then the order, its items, the
  deletion of the user's cart rows and the commit.
\<close>

definition create_order ::
  "int \<Rightarrow> string option \<Rightarrow> string option \<Rightarrow> db \<Rightarrow> db \<times> (error + order)" where
  "create_order uid delivery_address_field notes_field s =
    (if falsy_str delivery_address_field
     then (s, Inl (BadRequest ''Missing fields: delivery_address''))
     else
       let cart_items = filter (\<lambda>c. cart_user_id c = Some uid) (carts s)
       in if cart_items = [] then (s, Inl (BadRequest ''Cart is empty''))
       else (case cart_subtotal (menu_items s) (PyInt 0) cart_items of
         Inl e \<Rightarrow> (s, Inl (Unhandled e))
       | Inr subtotal \<Rightarrow>
          let delivery_fee = PyInt MIN_DELIVERY_FEE
          in (case py_add subtotal delivery_fee of
            Inl e \<Rightarrow> (s, Inl (Unhandled e))
          | Inr total_amount \<Rightarrow>
             (case int_truediv ADVANCE_PAYMENT_PERCENTAGE 100 of
                Inl e \<Rightarrow> (s, Inl (Unhandled e))
              | Inr fraction \<Rightarrow>
                 (case py_mul total_amount fraction of
                    Inl e \<Rightarrow> (s, Inl (Unhandled e))
                  | Inr advance_amount \<Rightarrow>
                     let order = \<lparr> o_id = next_id (map o_id (orders s)),
                                   o_user_id = uid,
                                   o_status = ''new'',
                                   o_subtotal = numeric_value subtotal,
                                   o_delivery_fee = numeric_value delivery_fee,
                                   o_total_amount = numeric_value total_amount,
                                   o_advance_amount = numeric_value advance_amount,
                                   o_delivery_address = strip (the delivery_address_field),
                                   o_notes = Some (get_stripped notes_field),
                                   o_admin_notes = None \<rparr>
                     in (case make_order_items (menu_items s) (o_id order)
                               (next_id (map oi_id (order_items s))) cart_items of
                          Inl e \<Rightarrow> (s, Inl (Unhandled e))
                        | Inr new_items \<Rightarrow>
                           (s\<lparr> orders := orders s @ [order],
                                order_items := order_items s @ new_items,
                                carts := filter (\<lambda>c. cart_user_id c \<noteq> Some uid) (carts s) \<rparr>,
                            Inr order)))))))"

text \<open>
  \<open>update_delivery_fee\<close>. The request field is absent, or \<open>float(...)\<close> of it raises
  (answered 400), or \<open>float(...)\<close> returns a float. After the bounds check,
  \<open>order.total_amount = order.subtotal + delivery_fee\<close> adds the stored \<open>Decimal\<close>
  and that float.
\<close>

datatype fee_field = FeeAbsent | FeeNotANumber | FeeFloat rat

definition update_delivery_fee :: "int \<Rightarrow> fee_field \<Rightarrow> db \<Rightarrow> db \<times> (error + order)" where
  "update_delivery_fee order_id field s =
    (case find (\<lambda>r. o_id r = order_id) (orders s) of
       None \<Rightarrow> (s, Inl (NotFound ''Order not found''))
     | Some order \<Rightarrow>
        (case field of
           FeeAbsent \<Rightarrow> (s, Inl (BadRequest ''Delivery fee required''))
         | FeeNotANumber \<Rightarrow> (s, Inl (BadRequest ''Invalid delivery fee''))
         | FeeFloat f \<Rightarrow>
            let delivery_fee = PyFloat f
            in if py_less delivery_fee (PyInt MIN_DELIVERY_FEE) \<or> py_less (PyInt MAX_DELIVERY_FEE) delivery_fee
               then (s, Inl (BadRequest (''Delivery fee must be between '' @ str_int MIN_DELIVERY_FEE
                                          @ '' and '' @ str_int MAX_DELIVERY_FEE @ '' EGP'')))
               else (case py_add (PyDecimal (o_subtotal order)) delivery_fee of
                 Inl e \<Rightarrow> (s, Inl (Unhandled e))
               | Inr total_amount \<Rightarrow>
                  (case int_truediv ADVANCE_PAYMENT_PERCENTAGE 100 of
                     Inl e \<Rightarrow> (s, Inl (Unhandled e))
                   | Inr fraction \<Rightarrow>
                      (case py_mul total_amount fraction of
                         Inl e \<Rightarrow> (s, Inl (Unhandled e))
                       | Inr advance_amount \<Rightarrow>
                          let order' = order\<lparr> o_delivery_fee := numeric_value delivery_fee,
                                              o_total_amount := numeric_value total_amount,
                                              o_advance_amount := numeric_value advance_amount \<rparr>
                          in (s\<lparr>orders := map (\<lambda>r. if o_id r = order_id then order' else r) (orders s)\<rparr>,
                              Inr order'))))))"

section \<open>Cart (routes/cart_api.py)\<close>

text \<open>
  models.py declares \<open>Cart.session_id\<close> with \<open>nullable=False\<close>. A transaction that
  inserts or updates a cart row with \<open>session_id = None\<close> is refused by the database
  with \<open>IntegrityError\<close>, at the flush that the next query or the commit triggers, and
  nothing of it is stored.
\<close>

definition violates_not_null :: "cart list \<Rightarrow> bool" where
  "violates_not_null cs = list_ex (\<lambda>c. cart_session_id c = None) cs"

text \<open>
  \<open>Cart.quantity\<close> is an \<open>Integer\<close> column, 32 bits wide. The handlers add quantities
  as Python ints, without bound; a row whose quantity has left the range is refused at the
  flush with \<open>DataError\<close>, and nothing of the transaction is stored.
\<close>

definition INTEGER_MIN :: int where "INTEGER_MIN = - 2147483648"
definition INTEGER_MAX :: int where "INTEGER_MAX = 2147483647"

definition quantity_out_of_range :: "cart list \<Rightarrow> bool" where
  "quantity_out_of_range cs =
     list_ex (\<lambda>c. cart_quantity c < INTEGER_MIN \<or> INTEGER_MAX < cart_quantity c) cs"

text \<open>
  A flush of the cart rows a handler has changed: the exception it raises, if any. Stored
  rows meet both constraints, so testing all rows of the table is testing the rows the
  handler wrote. A row that breaks both constraints is refused for its quantity: a value is
  converted to the type of its column before the constraints of the row are checked. The
  answer is 500 and the database is unchanged in either case.
\<close>

definition flush_cart :: "cart list \<Rightarrow> pyexc option" where
  "flush_cart cs =
     (if quantity_out_of_range cs then Some DataError
      else if violates_not_null cs then Some IntegrityError
      else None)"

text \<open>
  The actor of a request is \<open>session.get('user_id')\<close> (\<open>user_id\<close>, \<open>None\<close> for a
  guest) and the value of \<open>get_session_id()\<close> (\<open>sid\<close>). \<open>if user_id:\<close> is false for
  \<open>None\<close> and for 0.
\<close>

definition truthy_id :: "int option \<Rightarrow> bool" where
  "truthy_id v = (case v of None \<Rightarrow> False | Some x \<Rightarrow> x \<noteq> 0)"

definition get_cart_items :: "int option \<Rightarrow> string \<Rightarrow> cart list \<Rightarrow> cart list" where
  "get_cart_items user_id sid cs =
     (if user_id \<noteq> None then filter (\<lambda>c. cart_user_id c = user_id) cs
      else filter (\<lambda>c. cart_session_id c = Some sid) cs)"

definition add_to_cart ::
  "int option \<Rightarrow> string \<Rightarrow> int option \<Rightarrow> int option \<Rightarrow> string option \<Rightarrow> db \<Rightarrow> db \<times> (error + cart list)" where
  "add_to_cart user_id sid menu_item_id_field quantity_field notes_field s =
    (let missing = (if falsy_int menu_item_id_field then [''menu_item_id''] else [])
                 @ (if falsy_int quantity_field then [''quantity''] else [])
     in if missing \<noteq> [] then (s, Inl (BadRequest (''Missing fields: '' @ join '', '' missing)))
     else
       let menu_item_id = the menu_item_id_field;
           quantity = the quantity_field;
           notes = get_stripped notes_field
       in if quantity \<le> 0 then (s, Inl (BadRequest ''Quantity must be greater than 0''))
       else case find (\<lambda>m. mi_id m = menu_item_id) (menu_items s) of
         None \<Rightarrow> (s, Inl (NotFound ''Menu item not found''))
       | Some menu_item \<Rightarrow>
          if \<not> mi_is_available menu_item then (s, Inl (BadRequest ''Menu item is not available''))
          else
            let session_id = (if \<not> truthy_id user_id then Some sid else None);
                existing_item =
                  (if truthy_id user_id
                   then find (\<lambda>c. cart_user_id c = user_id \<and> cart_menu_item_id c = menu_item_id) (carts s)
                   else find (\<lambda>c. cart_session_id c = session_id \<and> cart_menu_item_id c = menu_item_id) (carts s));
                cs = (case existing_item of
                        Some item \<Rightarrow>
                          let item1 = item\<lparr>cart_quantity := cart_quantity item + quantity\<rparr>;
                              item2 = (if notes \<noteq> [] then item1\<lparr>cart_notes := Some notes\<rparr> else item1)
                          in map (\<lambda>c. if cart_id c = cart_id item then item2 else c) (carts s)
                      | None \<Rightarrow>
                          carts s @ [\<lparr> cart_id = next_id (map cart_id (carts s)),
                                       cart_session_id = session_id,
                                       cart_user_id = user_id,
                                       cart_menu_item_id = menu_item_id,
                                       cart_quantity = quantity,
                                       cart_notes = Some notes \<rparr>])
            in (case flush_cart cs of
                  Some e \<Rightarrow> (s, Inl (Unhandled e))
                | None \<Rightarrow> (s\<lparr>carts := cs\<rparr>, Inr (get_cart_items user_id sid cs))))"

text \<open>
  The body of the loop of \<open>merge_cart\<close>, and the loop. \<open>guest_items\<close> is a list of
  mapped objects; an object is followed through the loop by its primary key, so that a row
  changed by an earlier iteration is read in its changed state, as the object would be.
  The query at the head of an iteration first flushes what the iterations before it have
  changed (the session's autoflush), and raises what that flush raises.
\<close>

definition truthy_str :: "string option \<Rightarrow> bool" where
  "truthy_str v = (\<not> falsy_str v)"

definition merge_step :: "int \<Rightarrow> int \<Rightarrow> cart list \<Rightarrow> cart list" where
  "merge_step uid gid cs =
     (case find (\<lambda>c. cart_id c = gid) cs of
        None \<Rightarrow> cs
      | Some guest_item \<Rightarrow>
         (case find (\<lambda>c. cart_user_id c = Some uid \<and> cart_menu_item_id c = cart_menu_item_id guest_item) cs of
            Some existing_item \<Rightarrow>
              let item1 = existing_item\<lparr>cart_quantity := cart_quantity existing_item + cart_quantity guest_item\<rparr>;
                  item2 = (if truthy_str (cart_notes guest_item) \<and> \<not> truthy_str (cart_notes existing_item)
                           then item1\<lparr>cart_notes := cart_notes guest_item\<rparr> else item1)
              in map (\<lambda>c. if cart_id c = cart_id existing_item then item2 else c) cs
          | None \<Rightarrow>
              let moved = guest_item\<lparr>cart_user_id := Some uid, cart_session_id := None\<rparr>
              in map (\<lambda>c. if cart_id c = gid then moved else c) cs))"

fun merge_items :: "int \<Rightarrow> int list \<Rightarrow> cart list \<Rightarrow> pyexc + cart list" where
  "merge_items uid [] cs = Inr cs"
| "merge_items uid (gid # gids) cs =
     (case flush_cart cs of
        Some e \<Rightarrow> Inl e
      | None \<Rightarrow> merge_items uid gids (merge_step uid gid cs))"

datatype merge_response = NoGuestItems | Merged "cart list"

definition merge_cart :: "int \<Rightarrow> string \<Rightarrow> db \<Rightarrow> db \<times> (error + merge_response)" where
  "merge_cart uid sid s =
    (let guest_items = filter (\<lambda>c. cart_session_id c = Some sid) (carts s)
     in if guest_items = [] then (s, Inr NoGuestItems)
        else
          (case merge_items uid (map cart_id guest_items) (carts s) of
             Inl e \<Rightarrow> (s, Inl (Unhandled e))
           | Inr cs \<Rightarrow>
              (case flush_cart cs of
                 Some e \<Rightarrow> (s, Inl (Unhandled e))
               | None \<Rightarrow> (s\<lparr>carts := cs\<rparr>, Inr (Merged (get_cart_items (Some uid) sid cs))))))"

text \<open>
  \<open>reorder\<close> (routes/orders_api.py): the body of the loop over the items of the original
  order, and the loop, whose query flushes in the same way. A new row is built without a
  \<open>session_id\<close>.
\<close>

definition reorder_step :: "int \<Rightarrow> order_item \<Rightarrow> cart list \<Rightarrow> cart list" where
  "reorder_step uid order_item cs =
     (case find (\<lambda>c. cart_user_id c = Some uid \<and> cart_menu_item_id c = oi_menu_item_id order_item) cs of
        Some existing_cart_item \<Rightarrow>
          let item' = existing_cart_item\<lparr>cart_quantity := cart_quantity existing_cart_item + oi_quantity order_item\<rparr>
          in map (\<lambda>c. if cart_id c = cart_id existing_cart_item then item' else c) cs
      | None \<Rightarrow>
          cs @ [\<lparr> cart_id = next_id (map cart_id cs),
                    cart_session_id = None,
                    cart_user_id = Some uid,
                    cart_menu_item_id = oi_menu_item_id order_item,
                    cart_quantity = oi_quantity order_item,
                    cart_notes = oi_notes order_item \<rparr>])"

fun reorder_items :: "int \<Rightarrow> order_item list \<Rightarrow> cart list \<Rightarrow> pyexc + cart list" where
  "reorder_items uid [] cs = Inr cs"
| "reorder_items uid (order_item # rest) cs =
     (case flush_cart cs of
        Some e \<Rightarrow> Inl e
      | None \<Rightarrow> reorder_items uid rest (reorder_step uid order_item cs))"

definition reorder :: "int \<Rightarrow> int \<Rightarrow> db \<Rightarrow> db \<times> (error + cart list)" where
  "reorder uid order_id s =
    (case find (\<lambda>r. o_id r = order_id \<and> o_user_id r = uid) (orders s) of
       None \<Rightarrow> (s, Inl (NotFound ''Order not found''))
     | Some original_order \<Rightarrow>
        let items = filter (\<lambda>i. oi_order_id i = o_id original_order) (order_items s)
        in (case reorder_items uid items (carts s) of
              Inl e \<Rightarrow> (s, Inl (Unhandled e))
            | Inr cs \<Rightarrow>
               (case flush_cart cs of
                  Some e \<Rightarrow> (s, Inl (Unhandled e))
                | None \<Rightarrow> (s\<lparr>carts := cs\<rparr>, Inr (filter (\<lambda>c. cart_user_id c = Some uid) cs)))))"

section \<open>Observations on the cart table\<close>

text \<open>
  The rows of a guest session, the quantity of a menu item in the cart of a user and in
  the cart of a guest session, whether a user has a row for a menu item, and the columns
  of a row that \<open>merge_cart\<close> selects rows by.
\<close>

definition guest_rows :: "string \<Rightarrow> cart list \<Rightarrow> cart list" where
  "guest_rows sid cs = filter (\<lambda>c. cart_session_id c = Some sid) cs"

definition user_quantity :: "int \<Rightarrow> int \<Rightarrow> cart list \<Rightarrow> int" where
  "user_quantity uid m cs =
     sum_list (map cart_quantity (filter (\<lambda>c. cart_user_id c = Some uid \<and> cart_menu_item_id c = m) cs))"

definition guest_quantity :: "string \<Rightarrow> int \<Rightarrow> cart list \<Rightarrow> int" where
  "guest_quantity sid m cs =
     sum_list (map cart_quantity (filter (\<lambda>c. cart_session_id c = Some sid \<and> cart_menu_item_id c = m) cs))"

definition cart_key :: "cart \<Rightarrow> int \<times> string option \<times> int option \<times> int" where
  "cart_key c = (cart_id c, cart_session_id c, cart_user_id c, cart_menu_item_id c)"

definition has_user_row :: "int \<Rightarrow> int \<Rightarrow> cart list \<Rightarrow> bool" where
  "has_user_row uid m cs = list_ex (\<lambda>c. cart_user_id c = Some uid \<and> cart_menu_item_id c = m) cs"

section \<open>Example states\<close>

text \<open>
  An order of user 5 with the amounts of the specification's scenario, and the one payment
  created for it.
\<close>

definition paid_order :: order where
  "paid_order = \<lparr> o_id = 1, o_user_id = 5, o_status = ''new'', o_subtotal = 175,
      o_delivery_fee = 40, o_total_amount = 215, o_advance_amount = 43,
      o_delivery_address = ''X'', o_notes = None, o_admin_notes = None \<rparr>"

definition first_payment :: payment where
  "first_payment = \<lparr> p_id = 1, p_order_id = 1, p_method = ''cod'', p_amount = 43,
      p_status = ''pending'', p_screenshot_url = None, p_transaction_id = None,
      p_notes = Some [] \<rparr>"

definition db_paid :: db where
  "db_paid = \<lparr> menu_items = [], carts = [], orders = [paid_order], order_items = [],
      payments = [first_payment] \<rparr>"

text \<open>The same order once the kitchen works on it, its payment rejected earlier.\<close>

definition db_preparing :: db where
  "db_preparing = db_paid\<lparr> orders := [paid_order\<lparr>o_status := ''preparing''\<rparr>],
       payments := [first_payment\<lparr>p_status := ''rejected''\<rparr>] \<rparr>"

text \<open>The same order with its payment already confirmed.\<close>

definition db_confirmed :: db where
  "db_confirmed = db_paid\<lparr> orders := [paid_order\<lparr>o_status := ''confirmed''\<rparr>],
       payments := [first_payment\<lparr>p_status := ''confirmed''\<rparr>] \<rparr>"

text \<open>
  The menu of the seed data (three of its items, the third taken off the menu), and the
  cart of the specification's scenario as rows of user 7: two portions of the first item
  and one of the second. The rows carry a session id, as the table requires.
\<close>

definition koshary :: menu_item where
  "koshary = \<lparr> mi_id = 1, mi_price = 65, mi_is_available = True \<rparr>"

definition falafel :: menu_item where
  "falafel = \<lparr> mi_id = 2, mi_price = 45, mi_is_available = True \<rparr>"

definition shawarma :: menu_item where
  "shawarma = \<lparr> mi_id = 3, mi_price = 85, mi_is_available = False \<rparr>"

definition db_menu :: db where
  "db_menu = \<lparr> menu_items = [koshary, falafel, shawarma], carts = [], orders = [],
      order_items = [], payments = [] \<rparr>"

definition db_checkout :: db where
  "db_checkout = \<lparr> menu_items = [koshary, falafel],
      carts = [\<lparr> cart_id = 1, cart_session_id = Some ''s1'', cart_user_id = Some 7,
                  cart_menu_item_id = 1, cart_quantity = 2, cart_notes = Some [] \<rparr>,
               \<lparr> cart_id = 2, cart_session_id = Some ''s1'', cart_user_id = Some 7,
                  cart_menu_item_id = 2, cart_quantity = 1, cart_notes = Some [] \<rparr>],
      orders = [], order_items = [], payments = [] \<rparr>"

text \<open>
  A delivered order of user 7 for two portions of the item that is now off the menu, with
  the user's cart empty, and with one portion of that item in the cart.
\<close>

definition past_order :: order where
  "past_order = \<lparr> o_id = 1, o_user_id = 7, o_status = ''delivered'', o_subtotal = 85,
      o_delivery_fee = 40, o_total_amount = 125, o_advance_amount = 25,
      o_delivery_address = ''X'', o_notes = None, o_admin_notes = None \<rparr>"

definition past_item :: order_item where
  "past_item = \<lparr> oi_id = 1, oi_order_id = 1, oi_menu_item_id = 3, oi_quantity = 2,
      oi_unit_price = 85, oi_notes = None \<rparr>"

definition db_past_order :: db where
  "db_past_order = db_menu\<lparr> orders := [past_order], order_items := [past_item] \<rparr>"

definition shawarma_row :: cart where
  "shawarma_row = \<lparr> cart_id = 1, cart_session_id = Some ''s1'', cart_user_id = Some 7,
      cart_menu_item_id = 3, cart_quantity = 1, cart_notes = None \<rparr>"

definition db_past_order_in_cart :: db where
  "db_past_order_in_cart = db_past_order\<lparr> carts := [shawarma_row] \<rparr>"

text \<open>
  A row of user 7 for the first menu item, a row of guest session \<open>g1\<close> for the same
  item, and a second guest row for an item the user does not have.
\<close>

definition user_row :: cart where
  "user_row = \<lparr> cart_id = 1, cart_session_id = Some ''s1'', cart_user_id = Some 7,
      cart_menu_item_id = 1, cart_quantity = 2, cart_notes = None \<rparr>"

definition guest_row :: cart where
  "guest_row = \<lparr> cart_id = 2, cart_session_id = Some ''g1'', cart_user_id = None,
      cart_menu_item_id = 1, cart_quantity = 3, cart_notes = Some ''no onion'' \<rparr>"

definition db_merge :: db where
  "db_merge = \<lparr> menu_items = [], carts = [user_row, guest_row], orders = [],
      order_items = [], payments = [] \<rparr>"

definition guest_row_b :: cart where
  "guest_row_b = \<lparr> cart_id = 3, cart_session_id = Some ''g1'', cart_user_id = None,
      cart_menu_item_id = 2, cart_quantity = 1, cart_notes = Some [] \<rparr>"

definition db_merge_mixed :: db where
  "db_merge_mixed = db_merge\<lparr> carts := [user_row, guest_row, guest_row_b] \<rparr>"

section \<open>Properties\<close>

subsection \<open>Lookups and updates by primary key\<close>

lemma find_key_mem:
  "find (\<lambda>x. f x = k) xs = Some y \<Longrightarrow> y \<in> set xs \<and> f y = k"
  by (auto simp: find_Some_iff)

lemma find_update_key:
  assumes "find (\<lambda>x. f x = k) xs = Some y" and "f y' = k"
  shows "find (\<lambda>x. f x = k) (map (\<lambda>x. if f x = k then y' else x) xs) = Some y'"
  using assms by (induction xs) (auto split: if_splits)

lemma map_update_key_distinct:
  assumes "distinct (map f xs)" and "y \<in> set xs"
  shows "map (\<lambda>x. if f x = f y then y' else x) xs = map (\<lambda>x. if x = y then y' else x) xs"
proof -
  have "\<And>x. x \<in> set xs \<Longrightarrow> (f x = f y) = (x = y)"
    using assms by (auto simp: distinct_map inj_on_def)
  then show ?thesis by simp
qed


subsection \<open>Confirming a payment\<close>



subsection \<open>One payment per order\<close>

lemma find_Some_of_mem:
  "x \<in> set (map f xs) \<Longrightarrow> \<exists>q. find (\<lambda>p. f p = x) xs = Some q"
  by (cases "find (\<lambda>p. f p = x) xs") (auto simp: find_None_iff)

lemma length_filter_key:
  "distinct (map f xs) \<Longrightarrow> x \<in> set (map f xs) \<Longrightarrow> length (filter (\<lambda>p. f p = x) xs) = 1"
proof (induction xs)
  case Nil
  then show ?case by simp
next
  case (Cons a xs)
  show ?case
  proof (cases "f a = x")
    case True
    with Cons.prems have "x \<notin> set (map f xs)" by auto
    then have "filter (\<lambda>p. f p = x) xs = []" by (auto simp: filter_empty_conv)
    with True show ?thesis by simp
  next
    case False
    with Cons show ?thesis by auto
  qed
qed

text \<open>Whatever the request, \<open>create_payment\<close> keeps the payments of distinct orders distinct.\<close>

lemma create_payment_keeps_distinct:
  assumes "distinct (map p_order_id (payments s))"
  shows "distinct (map p_order_id (payments (fst (create_payment uid oidf mf notes s))))"
  using assms
  by (auto simp: create_payment_def Let_def find_None_iff split: option.splits)

text \<open>A request that names an order with a payment never completes and stores nothing.\<close>

lemma create_payment_existing_fails:
  assumes "oid \<in> set (map p_order_id (payments s))"
  shows "\<exists>e. create_payment uid (Some oid) mf notes s = (s, Inl e)"
proof -
  from assms obtain q where "find (\<lambda>p. p_order_id p = oid) (payments s) = Some q"
    using find_Some_of_mem by fastforce
  then show ?thesis
    by (auto simp: create_payment_def Let_def split: option.splits)
qed

text \<open>
  C3. In a database where no order has two payments, take an order that has a payment. A
  further \<open>create_payment\<close> for it by its owner with a valid method is answered
  409 Conflict and stores nothing, so the order still has exactly one payment; any other
  request naming that order fails as well and stores nothing; and no request at all can
  make two payments share an order.
\<close>

theorem create_payment_one_per_order:
  assumes inv: "distinct (map p_order_id (payments s))"
    and has: "oid \<in> set (map p_order_id (payments s))"
    and valid: "oid \<noteq> 0" "m \<in> set valid_methods"
    and owned: "find (\<lambda>r. o_id r = oid \<and> o_user_id r = uid) (orders s) \<noteq> None"
  shows "create_payment uid (Some oid) (Some m) notes s
           = (s, Inl (Conflict ''Payment already exists for this order''))
       \<and> http_status (Conflict ''Payment already exists for this order'') = 409
       \<and> length (filter (\<lambda>p. p_order_id p = oid)
            (payments (fst (create_payment uid (Some oid) (Some m) notes s)))) = 1
       \<and> (\<forall>uid' m' notes'. \<exists>e. create_payment uid' (Some oid) m' notes' s = (s, Inl e))
       \<and> (\<forall>uid' oid' m' notes'.
            distinct (map p_order_id (payments (fst (create_payment uid' oid' m' notes' s)))))"
proof -
  from has obtain q where q: "find (\<lambda>p. p_order_id p = oid) (payments s) = Some q"
    using find_Some_of_mem by fastforce
  from valid(2) have m: "m \<noteq> []" by (auto simp: valid_methods_def)
  have conflict: "create_payment uid (Some oid) (Some m) notes s
           = (s, Inl (Conflict ''Payment already exists for this order''))"
    using q m valid owned
    by (auto simp: create_payment_def falsy_int_def falsy_str_def Let_def split: option.splits)
  have "length (filter (\<lambda>p. p_order_id p = oid) (payments s)) = 1"
    using inv has length_filter_key by fastforce
  with conflict show ?thesis
    using create_payment_existing_fails[OF has] create_payment_keeps_distinct[OF inv]
    by simp
qed

theorem create_payment_one_per_order_witness:
  "create_payment 5 (Some 1) (Some ''instapay'') None db_paid
      = (db_paid, Inl (Conflict ''Payment already exists for this order''))
   \<and> length (filter (\<lambda>p. p_order_id p = 1) (payments db_paid)) = 1"
proof -
  have a: "distinct (map p_order_id (payments db_paid))"
    by (simp add: db_paid_def first_payment_def)
  have b: "1 \<in> set (map p_order_id (payments db_paid))"
    by (simp add: db_paid_def first_payment_def)
  have c: "(1::int) \<noteq> 0" by simp
  have d: "''instapay'' \<in> set valid_methods" by (simp add: valid_methods_def)
  have e: "find (\<lambda>r. o_id r = 1 \<and> o_user_id r = 5) (orders db_paid) \<noteq> None"
    by (simp add: db_paid_def paid_order_def)
  show ?thesis using create_payment_one_per_order[OF a b c d e, of None] by auto
qed

subsection \<open>Rejecting a payment\<close>

text \<open>
  C7, as stated, fails for a reason that is not empty but blank: the handler strips the
  reason before testing it, so a reason of one space is refused like a missing one.
\<close>

theorem reject_payment_blank_reason_counterexample:
  "'' '' \<noteq> [] \<and>
   map p_id (payments db_paid) = [1] \<and>
   reject_payment 1 (JsonString '' '') db_paid
     = (db_paid, Inl (BadRequest ''Rejection reason required''))"
  by (simp add: reject_payment_def db_paid_def first_payment_def strip_def is_space_def)

text \<open>
  C7, amended. For a payment that exists: when the reason is absent from the request, or
  is a string that is empty once stripped of surrounding whitespace (empty or blank),
  \<open>reject_payment\<close> answers 400 and the database is unchanged; when it is a string that
  is not empty once stripped, \<open>reject_payment\<close> completes, the stored payment is the old
  one with status \<open>rejected\<close> and the stripped reason as its notes, and the orders table
  is unchanged.
\<close>

theorem reject_payment_needs_reason:
  assumes pay: "find (\<lambda>p. p_id p = payment_id) (payments s) = Some payment"
  shows "reject_payment payment_id Absent s = (s, Inl (BadRequest ''Rejection reason required''))
       \<and> http_status (BadRequest ''Rejection reason required'') = 400
       \<and> (strip reason = [] \<longrightarrow>
            reject_payment payment_id (JsonString reason) s
              = (s, Inl (BadRequest ''Rejection reason required'')))
       \<and> (strip reason \<noteq> [] \<longrightarrow>
            (\<exists>s' payment'.
               reject_payment payment_id (JsonString reason) s = (s', Inr payment')
             \<and> find (\<lambda>p. p_id p = payment_id) (payments s') = Some payment'
             \<and> payment' = payment\<lparr>p_status := ''rejected'', p_notes := Some (strip reason)\<rparr>
             \<and> orders s' = orders s))"
proof -
  have pid: "p_id payment = payment_id" using find_key_mem[OF pay] by simp
  have absent: "reject_payment payment_id Absent s = (s, Inl (BadRequest ''Rejection reason required''))"
    using pay by (simp add: reject_payment_def strip_def)
  show ?thesis
  proof (cases "strip reason = []")
    case True
    then have "reject_payment payment_id (JsonString reason) s
                 = (s, Inl (BadRequest ''Rejection reason required''))"
      using pay by (simp add: reject_payment_def)
    with absent True show ?thesis by simp
  next
    case False
    define payment' where "payment' = payment\<lparr>p_status := ''rejected'', p_notes := Some (strip reason)\<rparr>"
    define s' where "s' = s\<lparr>payments := map (\<lambda>p. if p_id p = payment_id then payment' else p) (payments s)\<rparr>"
    have run: "reject_payment payment_id (JsonString reason) s = (s', Inr payment')"
      using pay False by (simp add: reject_payment_def Let_def payment'_def s'_def)
    have "p_id payment' = payment_id" using pid by (simp add: payment'_def)
    from find_update_key[OF pay this]
    have f: "find (\<lambda>p. p_id p = payment_id) (payments s') = Some payment'" by (simp add: s'_def)
    have "orders s' = orders s" by (simp add: s'_def)
    with absent run f False show ?thesis unfolding payment'_def by simp
  qed
qed

theorem reject_payment_needs_reason_witness:
  "reject_payment 1 Absent db_paid = (db_paid, Inl (BadRequest ''Rejection reason required''))
   \<and> reject_payment 1 (JsonString []) db_paid = (db_paid, Inl (BadRequest ''Rejection reason required''))
   \<and> (\<exists>s' payment'. reject_payment 1 (JsonString ''no transfer found'') db_paid = (s', Inr payment')
         \<and> p_status payment' = ''rejected'' \<and> orders s' = orders db_paid
         \<and> map o_status (orders s') = [''new''])"
proof -
  have a: "find (\<lambda>p. p_id p = 1) (payments db_paid) = Some first_payment"
    by (simp add: db_paid_def first_payment_def)
  have n2: "strip [] = []" by (simp add: strip_def)
  have n3: "strip ''no transfer found'' \<noteq> []"
    by (simp add: strip_def is_space_def)
  have st: "map o_status (orders db_paid) = [''new'']" by (simp add: db_paid_def paid_order_def)
  from reject_payment_needs_reason[OF a, of "[]"] n2
  have one: "reject_payment 1 Absent db_paid = (db_paid, Inl (BadRequest ''Rejection reason required''))"
    and two: "reject_payment 1 (JsonString []) db_paid = (db_paid, Inl (BadRequest ''Rejection reason required''))"
    by simp_all
  from reject_payment_needs_reason[OF a, of "''no transfer found''"] n3
  have three: "\<exists>s' payment'. reject_payment 1 (JsonString ''no transfer found'') db_paid = (s', Inr payment')
         \<and> p_status payment' = ''rejected'' \<and> orders s' = orders db_paid
         \<and> map o_status (orders s') = [''new'']"
    using st by auto
  from one two three show ?thesis by blast
qed

text \<open>
  A reason that is \<open>null\<close> or not a string is outside the amended statement: the handler
  raises \<open>AttributeError\<close> on it, the answer is 500 and the database is unchanged.
\<close>

lemma reject_payment_reason_not_a_string:
  assumes "find (\<lambda>p. p_id p = payment_id) (payments s) = Some payment"
  shows "reject_payment payment_id JsonNull s = (s, Inl (Unhandled AttributeError))
       \<and> reject_payment payment_id JsonOther s = (s, Inl (Unhandled AttributeError))
       \<and> http_status (Unhandled AttributeError) = 500"
  using assms by (simp add: reject_payment_def)

subsection \<open>Uploading a payment proof\<close>

lemma find_update_key_mem:
  assumes "y \<in> set xs" and "f y = k" and "f y' = k"
  shows "find (\<lambda>x. f x = k) (map (\<lambda>x. if f x = k then y' else x) xs) = Some y'"
  using assms by (induction xs) (auto split: if_splits)

text \<open>
  C8. For a payment of one of the caller's orders and an uploaded file with a non-empty
  name of an allowed type, \<open>upload_payment_proof\<close> completes whatever the payment's
  status was: the stored payment is the old one with the new proof reference and status
  \<open>pending\<close>.
\<close>

theorem upload_proof_resets_to_pending:
  assumes pay: "find (\<lambda>p. p_id p = payment_id \<and>
                     list_ex (\<lambda>r. o_id r = p_order_id p \<and> o_user_id r = uid) (orders s))
                  (payments s) = Some payment"
    and fname: "filename \<noteq> []" "allowed_file filename"
  shows "\<exists>s' payment'.
           upload_payment_proof timestamp safe_name uid payment_id (Some filename) s = (s', Inr payment')
         \<and> find (\<lambda>p. p_id p = payment_id) (payments s') = Some payment'
         \<and> p_status payment' = ''pending''
         \<and> p_screenshot_url payment' =
              Some (''/static/uploads/payments/payment_'' @ str_int payment_id @ ''_'' @ timestamp @ ''_'' @ safe_name)
         \<and> payment' = payment\<lparr>p_screenshot_url := p_screenshot_url payment', p_status := ''pending''\<rparr>
         \<and> orders s' = orders s"
proof -
  from pay have pmem: "payment \<in> set (payments s)" and pid: "p_id payment = payment_id"
    by (auto simp: find_Some_iff)
  define payment' where "payment' =
     payment\<lparr> p_screenshot_url := Some (''/static/uploads/payments/'' @ (''payment_'' @ str_int payment_id @ ''_'' @ timestamp @ ''_'' @ safe_name)),
              p_status := ''pending'' \<rparr>"
  define s' where "s' = s\<lparr>payments := map (\<lambda>p. if p_id p = payment_id then payment' else p) (payments s)\<rparr>"
  have run: "upload_payment_proof timestamp safe_name uid payment_id (Some filename) s = (s', Inr payment')"
    using pay fname by (simp add: upload_payment_proof_def Let_def payment'_def s'_def)
  have "p_id payment' = payment_id" using pid by (simp add: payment'_def)
  from find_update_key_mem[OF pmem pid this]
  have f: "find (\<lambda>p. p_id p = payment_id) (payments s') = Some payment'" by (simp add: s'_def)
  have "orders s' = orders s" by (simp add: s'_def)
  with run f show ?thesis by (auto simp: payment'_def)
qed

theorem upload_proof_resets_to_pending_witness:
  "(\<exists>s' payment'. upload_payment_proof ''20240101_120000'' ''proof.PNG'' 5 1 (Some ''proof.PNG'') db_paid = (s', Inr payment')
       \<and> p_status payment' = ''pending''
       \<and> p_screenshot_url payment' = Some ''/static/uploads/payments/payment_1_20240101_120000_proof.PNG'')
 \<and> (\<exists>s' payment'. upload_payment_proof ''20240101_120000'' ''proof.PNG'' 5 1 (Some ''proof.PNG'') db_preparing = (s', Inr payment')
       \<and> p_status payment' = ''pending'')
 \<and> (\<exists>s' payment'. upload_payment_proof ''20240101_120000'' ''proof.PNG'' 5 1 (Some ''proof.PNG'') db_confirmed = (s', Inr payment')
       \<and> p_status payment' = ''pending'')"
proof -
  have f: "''proof.PNG'' \<noteq> []" by simp
  have al: "allowed_file ''proof.PNG''" by code_simp
  have n: "str_int 1 = ''1''" by code_simp
  have a: "find (\<lambda>p. p_id p = 1 \<and> list_ex (\<lambda>r. o_id r = p_order_id p \<and> o_user_id r = 5) (orders db_paid))
             (payments db_paid) = Some first_payment"
    by (simp add: db_paid_def first_payment_def paid_order_def)
  have b: "find (\<lambda>p. p_id p = 1 \<and> list_ex (\<lambda>r. o_id r = p_order_id p \<and> o_user_id r = 5) (orders db_preparing))
             (payments db_preparing) = Some (first_payment\<lparr>p_status := ''rejected''\<rparr>)"
    by (simp add: db_preparing_def db_paid_def first_payment_def paid_order_def)
  have c: "find (\<lambda>p. p_id p = 1 \<and> list_ex (\<lambda>r. o_id r = p_order_id p \<and> o_user_id r = 5) (orders db_confirmed))
             (payments db_confirmed) = Some (first_payment\<lparr>p_status := ''confirmed''\<rparr>)"
    by (simp add: db_confirmed_def db_paid_def first_payment_def paid_order_def)
  from upload_proof_resets_to_pending[OF a f al, of "''20240101_120000''" "''proof.PNG''"] n
  have one: "\<exists>s' payment'. upload_payment_proof ''20240101_120000'' ''proof.PNG'' 5 1 (Some ''proof.PNG'') db_paid = (s', Inr payment')
       \<and> p_status payment' = ''pending''
       \<and> p_screenshot_url payment' = Some ''/static/uploads/payments/payment_1_20240101_120000_proof.PNG''"
    by auto
  from upload_proof_resets_to_pending[OF b f al, of "''20240101_120000''" "''proof.PNG''"]
  have two: "\<exists>s' payment'. upload_payment_proof ''20240101_120000'' ''proof.PNG'' 5 1 (Some ''proof.PNG'') db_preparing = (s', Inr payment')
       \<and> p_status payment' = ''pending''"
    by blast
  from upload_proof_resets_to_pending[OF c f al, of "''20240101_120000''" "''proof.PNG''"]
  have three: "\<exists>s' payment'. upload_payment_proof ''20240101_120000'' ''proof.PNG'' 5 1 (Some ''proof.PNG'') db_confirmed = (s', Inr payment')
       \<and> p_status payment' = ''pending''"
    by blast
  from one two three show ?thesis by blast
qed

subsection \<open>Checkout and the delivery fee\<close>

text \<open>
  The subtotal of a non-empty cart is a \<open>Decimal\<close>, and so is the total; the advance
  is their product with the float \<open>20 / 100\<close>, which \<open>Decimal\<close> refuses.
\<close>

lemma cart_subtotal_from_decimal:
  "cart_subtotal menu (PyDecimal d) items = Inr v \<Longrightarrow> \<exists>d'. v = PyDecimal d'"
  by (induction items arbitrary: d) (auto split: option.splits)

lemma cart_subtotal_is_decimal:
  assumes "cart_subtotal menu (PyInt 0) items = Inr v" and "items \<noteq> []"
  shows "\<exists>d. v = PyDecimal d"
proof (cases items)
  case Nil
  with assms show ?thesis by simp
next
  case (Cons item rest)
  with assms(1) show ?thesis
    by (auto split: option.splits dest: cart_subtotal_from_decimal)
qed

lemma create_order_never_completes:
  "\<exists>e. create_order uid delivery_address notes s = (s, Inl e)"
proof (cases "falsy_str delivery_address \<or> filter (\<lambda>c. cart_user_id c = Some uid) (carts s) = []")
  case True
  then show ?thesis by (auto simp: create_order_def)
next
  case False
  let ?items = "filter (\<lambda>c. cart_user_id c = Some uid) (carts s)"
  show ?thesis
  proof (cases "cart_subtotal (menu_items s) (PyInt 0) ?items")
    case (Inl e)
    with False show ?thesis by (simp add: create_order_def)
  next
    case (Inr subtotal)
    with False obtain d where d: "subtotal = PyDecimal d"
      using cart_subtotal_is_decimal by blast
    have "int_truediv ADVANCE_PAYMENT_PERCENTAGE 100 = Inr (PyFloat (of_int ADVANCE_PAYMENT_PERCENTAGE / 100))"
      by (simp add: int_truediv_def)
    with False Inr d show ?thesis
      by (simp add: create_order_def Let_def)
  qed
qed

lemma create_order_type_error:
  assumes "\<not> falsy_str delivery_address"
    and "filter (\<lambda>c. cart_user_id c = Some uid) (carts s) \<noteq> []"
    and "cart_subtotal (menu_items s) (PyInt 0) (filter (\<lambda>c. cart_user_id c = Some uid) (carts s)) = Inr subtotal"
  shows "create_order uid delivery_address notes s = (s, Inl (Unhandled TypeError))"
proof -
  from assms obtain d where d: "subtotal = PyDecimal d"
    using cart_subtotal_is_decimal by blast
  have "int_truediv ADVANCE_PAYMENT_PERCENTAGE 100 = Inr (PyFloat (of_int ADVANCE_PAYMENT_PERCENTAGE / 100))"
    by (simp add: int_truediv_def)
  with assms d show ?thesis
    by (simp add: create_order_def Let_def)
qed

text \<open>
  In \<open>update_delivery_fee\<close> the new fee is a float and the stored subtotal a
  \<open>Decimal\<close>: their sum is refused. A fee outside the bounds is answered 400 before.
\<close>

lemma update_delivery_fee_never_completes:
  "\<exists>e. update_delivery_fee order_id field s = (s, Inl e)"
  by (auto simp: update_delivery_fee_def Let_def split: option.splits fee_field.splits)

lemma update_delivery_fee_out_of_bounds:
  assumes "find (\<lambda>r. o_id r = order_id) (orders s) = Some order"
    and "f < 40 \<or> 80 < f"
  shows "update_delivery_fee order_id (FeeFloat f) s
           = (s, Inl (BadRequest ''Delivery fee must be between 40 and 80 EGP''))"
proof -
  have "str_int MIN_DELIVERY_FEE = ''40''" "str_int MAX_DELIVERY_FEE = ''80''"
    unfolding MIN_DELIVERY_FEE_def MAX_DELIVERY_FEE_def by code_simp+
  with assms show ?thesis
    by (auto simp: update_delivery_fee_def Let_def MIN_DELIVERY_FEE_def MAX_DELIVERY_FEE_def)
qed

lemma update_delivery_fee_in_bounds:
  assumes "find (\<lambda>r. o_id r = order_id) (orders s) = Some order"
    and "40 \<le> f" "f \<le> 80"
  shows "update_delivery_fee order_id (FeeFloat f) s = (s, Inl (Unhandled TypeError))"
  using assms
  by (auto simp: update_delivery_fee_def Let_def MIN_DELIVERY_FEE_def MAX_DELIVERY_FEE_def)

text \<open>
  C1. The claim describes a checkout that succeeds; the handler cannot. For the cart of
  the specification's scenario (subtotal 175) \<open>create_order\<close> raises \<open>TypeError\<close>
  when it computes the advance: the answer is 500, the two cart rows stay and no order
  and no order item is stored.
\<close>

theorem create_order_scenario_type_error:
  "create_order 7 (Some ''X'') None db_checkout = (db_checkout, Inl (Unhandled TypeError))
   \<and> http_status (Unhandled TypeError) = 500
   \<and> map cart_quantity (carts db_checkout) = [2, 1]
   \<and> orders db_checkout = [] \<and> order_items db_checkout = []"
proof -
  have "cart_subtotal (menu_items db_checkout) (PyInt 0)
          (filter (\<lambda>c. cart_user_id c = Some 7) (carts db_checkout)) = Inr (PyDecimal 175)"
    by (simp add: db_checkout_def koshary_def falafel_def)
  moreover have "\<not> falsy_str (Some ''X'')" by (simp add: falsy_str_def)
  moreover have "filter (\<lambda>c. cart_user_id c = Some 7) (carts db_checkout) \<noteq> []"
    by (simp add: db_checkout_def)
  ultimately have "create_order 7 (Some ''X'') None db_checkout = (db_checkout, Inl (Unhandled TypeError))"
    by (rule create_order_type_error[rotated 2])
  then show ?thesis by (simp add: db_checkout_def)
qed

text \<open>
  C2. The two handlers that compute \<open>total_amount\<close> and \<open>advance_amount\<close> never
  complete, whatever the request and the database: each returns an error and the database
  it was given. So no order ever gets the amounts the claim describes.
\<close>

theorem money_handlers_never_complete:
  "(\<exists>e. create_order uid delivery_address notes s = (s, Inl e))
   \<and> (\<exists>e. update_delivery_fee order_id field s = (s, Inl e))"
  using create_order_never_completes update_delivery_fee_never_completes by blast

text \<open>
  C6. On the order of the specification's scenario, a fee of 80 (within the bounds) is
  not accepted: \<open>update_delivery_fee\<close> raises \<open>TypeError\<close> and stores nothing. A fee
  of 20 is answered 400 with the order unchanged, as the claim says.
\<close>

theorem update_delivery_fee_scenario:
  "update_delivery_fee 1 (FeeFloat 80) db_paid = (db_paid, Inl (Unhandled TypeError))
   \<and> update_delivery_fee 1 (FeeFloat 20) db_paid
        = (db_paid, Inl (BadRequest ''Delivery fee must be between 40 and 80 EGP''))
   \<and> o_subtotal paid_order = 175 \<and> o_delivery_fee paid_order = 40"
proof -
  have f: "find (\<lambda>r. o_id r = 1) (orders db_paid) = Some paid_order"
    by (simp add: db_paid_def paid_order_def)
  have "update_delivery_fee 1 (FeeFloat 80) db_paid = (db_paid, Inl (Unhandled TypeError))"
    by (rule update_delivery_fee_in_bounds[OF f]) simp_all
  moreover have "update_delivery_fee 1 (FeeFloat 20) db_paid
        = (db_paid, Inl (BadRequest ''Delivery fee must be between 40 and 80 EGP''))"
    by (rule update_delivery_fee_out_of_bounds[OF f]) simp
  ultimately show ?thesis by (simp add: paid_order_def)
qed

subsection \<open>Adding to the cart\<close>

lemma fold_max_ge: "(a::int) \<le> fold max xs a"
  by (induction xs arbitrary: a) (auto intro: order_trans[OF max.cobounded2])

lemma fold_max_mem: "x \<in> set xs \<Longrightarrow> (x::int) \<le> fold max xs a"
proof (induction xs arbitrary: a)
  case Nil
  then show ?case by simp
next
  case (Cons y ys)
  show ?case
  proof (cases "x = y")
    case True
    have "y \<le> max y a" by simp
    also have "\<dots> \<le> fold max ys (max y a)" by (rule fold_max_ge)
    finally show ?thesis using True by simp
  next
    case False
    with Cons show ?thesis by simp
  qed
qed

lemma next_id_fresh: "next_id ids \<notin> set ids"
proof
  assume "next_id ids \<in> set ids"
  then have "next_id ids \<le> fold max ids 0" by (rule fold_max_mem)
  then show False by (simp add: next_id_def)
qed

lemma find_append_case:
  "find P (xs @ ys) = (case find P xs of None \<Rightarrow> find P ys | Some x \<Rightarrow> Some x)"
  by (induction xs) auto

lemma map_update_absent:
  "(\<And>x. x \<in> set xs \<Longrightarrow> f x \<noteq> k) \<Longrightarrow> map (\<lambda>x. if f x = k then y else x) xs = xs"
  by (induction xs) auto

lemma violates_not_null_iff:
  "violates_not_null cs \<longleftrightarrow> (\<exists>c\<in>set cs. cart_session_id c = None)"
  by (simp add: violates_not_null_def list_ex_iff)

lemma quantity_out_of_range_iff:
  "quantity_out_of_range cs
     \<longleftrightarrow> (\<exists>c\<in>set cs. cart_quantity c < INTEGER_MIN \<or> INTEGER_MAX < cart_quantity c)"
  by (simp add: quantity_out_of_range_def list_ex_iff)

lemma flush_cart_None_iff:
  "flush_cart cs = None \<longleftrightarrow> \<not> quantity_out_of_range cs \<and> \<not> violates_not_null cs"
  by (simp add: flush_cart_def)

lemma flush_cart_not_null:
  "violates_not_null cs \<Longrightarrow> \<not> quantity_out_of_range cs \<Longrightarrow> flush_cart cs = Some IntegrityError"
  by (simp add: flush_cart_def)

lemma flush_cart_refuses: "violates_not_null cs \<Longrightarrow> \<exists>e. flush_cart cs = Some e"
  by (simp add: flush_cart_def)

text \<open>
  A logged-in user who has no row for the item yet: the new row is refused, whatever the
  quantity within the column's range.
\<close>

lemma add_to_cart_user_new_row_refused:
  assumes "truthy_id user_id" and "m \<noteq> 0" and "0 < q" and "q \<le> INTEGER_MAX"
    and "find (\<lambda>i. mi_id i = m) (menu_items s) = Some item" and "mi_is_available item"
    and "find (\<lambda>c. cart_user_id c = user_id \<and> cart_menu_item_id c = m) (carts s) = None"
    and "\<not> quantity_out_of_range (carts s)"
  shows "add_to_cart user_id sid (Some m) (Some q) notes s = (s, Inl (Unhandled IntegrityError))"
proof -
  let ?row = "\<lparr> cart_id = next_id (map cart_id (carts s)), cart_session_id = None,
       cart_user_id = user_id, cart_menu_item_id = m, cart_quantity = q,
       cart_notes = Some (get_stripped notes) \<rparr>"
  have "violates_not_null (carts s @ [?row])" by (simp add: violates_not_null_iff)
  moreover have "\<not> quantity_out_of_range (carts s @ [?row])"
    using assms(3,4,8) by (auto simp: quantity_out_of_range_iff INTEGER_MIN_def)
  ultimately have "flush_cart (carts s @ [?row]) = Some IntegrityError" by (rule flush_cart_not_null)
  with assms show ?thesis
    by (simp add: add_to_cart_def falsy_int_def Let_def)
qed

text \<open>
  A guest: two additions of the same item make one row with the summed quantity, as long
  as the sum fits the column.
\<close>

lemma add_to_cart_guest_twice:
  assumes m: "m \<noteq> 0" and q: "0 < q1" "0 < q2" and fits: "q1 + q2 \<le> INTEGER_MAX"
    and item: "find (\<lambda>i. mi_id i = m) (menu_items s) = Some item" "mi_is_available item"
    and ok: "flush_cart (carts s) = None"
    and fresh: "find (\<lambda>c. cart_session_id c = Some sid \<and> cart_menu_item_id c = m) (carts s) = None"
  shows "\<exists>s1 r1 s2 r2.
           add_to_cart None sid (Some m) (Some q1) notes1 s = (s1, Inr r1)
         \<and> add_to_cart None sid (Some m) (Some q2) notes2 s1 = (s2, Inr r2)
         \<and> map cart_quantity (filter (\<lambda>c. cart_session_id c = Some sid \<and> cart_menu_item_id c = m) (carts s2))
             = [q1 + q2]
         \<and> length (carts s2) = length (carts s) + 1"
proof -
  define row where "row = \<lparr> cart_id = next_id (map cart_id (carts s)), cart_session_id = Some sid,
       cart_user_id = None, cart_menu_item_id = m, cart_quantity = q1,
       cart_notes = Some (get_stripped notes1) \<rparr>"
  define s1 where "s1 = s\<lparr>carts := carts s @ [row]\<rparr>"
  have v1: "flush_cart (carts s @ [row]) = None"
    using ok q fits
    by (auto simp: flush_cart_None_iff violates_not_null_iff quantity_out_of_range_iff row_def INTEGER_MIN_def)
  have run1: "add_to_cart None sid (Some m) (Some q1) notes1 s
                = (s1, Inr (get_cart_items None sid (carts s1)))"
    using m q item fresh v1
    by (simp add: add_to_cart_def falsy_int_def Let_def truthy_id_def s1_def row_def)
  have f1: "find (\<lambda>c. cart_session_id c = Some sid \<and> cart_menu_item_id c = m) (carts s1) = Some row"
    using fresh by (simp add: s1_def find_append_case row_def)
  define row2 where "row2 =
     (let item1 = row\<lparr>cart_quantity := cart_quantity row + q2\<rparr>
      in if get_stripped notes2 \<noteq> [] then item1\<lparr>cart_notes := Some (get_stripped notes2)\<rparr> else item1)"
  define cs2 where "cs2 = map (\<lambda>c. if cart_id c = cart_id row then row2 else c) (carts s1)"
  have old: "\<And>c. c \<in> set (carts s) \<Longrightarrow> cart_id c \<noteq> cart_id row"
    using next_id_fresh[of "map cart_id (carts s)"] by (force simp: row_def)
  have cs2: "cs2 = carts s @ [row2]"
    using map_update_absent[of "carts s" cart_id "cart_id row" row2] old by (simp add: cs2_def s1_def)
  have v2: "flush_cart cs2 = None"
    using ok q fits
    by (auto simp: cs2 flush_cart_None_iff violates_not_null_iff quantity_out_of_range_iff
        row2_def row_def Let_def INTEGER_MIN_def)
  have item1: "find (\<lambda>i. mi_id i = m) (menu_items s1) = Some item" using item by (simp add: s1_def)
  have run2: "add_to_cart None sid (Some m) (Some q2) notes2 s1
                = (s1\<lparr>carts := cs2\<rparr>, Inr (get_cart_items None sid cs2))"
  proof (cases "get_stripped notes2 = []")
    case True
    then have r: "row2 = row\<lparr>cart_quantity := cart_quantity row + q2\<rparr>"
      by (simp add: row2_def)
    show ?thesis
      using m q item1 item(2) f1 v2 True unfolding cs2_def r
      by (simp add: add_to_cart_def falsy_int_def Let_def truthy_id_def)
  next
    case False
    then have r: "row2 = row\<lparr>cart_quantity := cart_quantity row + q2, cart_notes := Some (get_stripped notes2)\<rparr>"
      by (simp add: row2_def)
    show ?thesis
      using m q item1 item(2) f1 v2 False unfolding cs2_def r
      by (simp add: add_to_cart_def falsy_int_def Let_def truthy_id_def)
  qed
  have none: "filter (\<lambda>c. cart_session_id c = Some sid \<and> cart_menu_item_id c = m) (carts s) = []"
    using fresh by (auto simp: find_None_iff filter_empty_conv)
  have q2: "map cart_quantity (filter (\<lambda>c. cart_session_id c = Some sid \<and> cart_menu_item_id c = m) cs2) = [q1 + q2]"
    using none by (simp add: cs2 row2_def row_def Let_def)
  have len: "length cs2 = length (carts s) + 1" by (simp add: cs2)
  from run1 run2 q2 len show ?thesis by auto
qed

text \<open>
  C5. For a logged-in owner the claim fails: the row that \<open>add_to_cart\<close> builds has no
  session id, the insert is refused, and after both additions (quantities 2 and 3) the
  cart of user 7 is still empty.
\<close>

theorem add_to_cart_logged_in_refused:
  "add_to_cart (Some 7) ''s1'' (Some 1) (Some 2) None db_menu = (db_menu, Inl (Unhandled IntegrityError))
   \<and> add_to_cart (Some 7) ''s1'' (Some 1) (Some 3) None db_menu = (db_menu, Inl (Unhandled IntegrityError))
   \<and> carts db_menu = []
   \<and> http_status (Unhandled IntegrityError) = 500"
proof -
  have a: "truthy_id (Some 7)" by (simp add: truthy_id_def)
  have b: "find (\<lambda>i. mi_id i = 1) (menu_items db_menu) = Some koshary"
    by (simp add: db_menu_def koshary_def)
  have c: "mi_is_available koshary" by (simp add: koshary_def)
  have d: "find (\<lambda>c. cart_user_id c = Some 7 \<and> cart_menu_item_id c = 1) (carts db_menu) = None"
    by (simp add: db_menu_def)
  have e: "\<not> quantity_out_of_range (carts db_menu)"
    by (simp add: db_menu_def quantity_out_of_range_def)
  have "add_to_cart (Some 7) ''s1'' (Some 1) (Some 2) None db_menu = (db_menu, Inl (Unhandled IntegrityError))"
    by (rule add_to_cart_user_new_row_refused[OF a _ _ _ b c d e]) (simp_all add: INTEGER_MAX_def)
  moreover have "add_to_cart (Some 7) ''s1'' (Some 1) (Some 3) None db_menu = (db_menu, Inl (Unhandled IntegrityError))"
    by (rule add_to_cart_user_new_row_refused[OF a _ _ _ b c d e]) (simp_all add: INTEGER_MAX_def)
  ultimately show ?thesis by (simp add: db_menu_def)
qed

subsection \<open>Merging the guest cart\<close>

lemma map_replace_key:
  assumes "\<And>x. f (if x = e then e2 else x) = f x"
  shows "map f (map (\<lambda>c. if c = e then e2 else c) cs) = map f cs"
  using assms by (induction cs) auto

lemma filter_replace_outside:
  assumes "\<not> P e" and "\<not> P e2"
  shows "filter P (map (\<lambda>c. if c = e then e2 else c) cs) = filter P cs"
  using assms by (induction cs) auto

lemma map_replace_absent:
  "e \<notin> set cs \<Longrightarrow> map (\<lambda>c. if c = e then e2 else c) cs = cs"
  by (induction cs) auto

lemma sum_replace_inside:
  fixes q :: "'a \<Rightarrow> int"
  assumes "distinct cs" and "e \<in> set cs" and "P e" and "P e2"
  shows "sum_list (map q (filter P (map (\<lambda>c. if c = e then e2 else c) cs)))
           = sum_list (map q (filter P cs)) + q e2 - q e"
  using assms
proof (induction cs)
  case Nil
  then show ?case by simp
next
  case (Cons a cs)
  show ?case
  proof (cases "a = e")
    case True
    with Cons.prems have "e \<notin> set cs" by simp
    then have "map (\<lambda>c. if c = e then e2 else c) cs = cs" by (rule map_replace_absent)
    with True Cons.prems show ?thesis by simp
  next
    case False
    with Cons show ?thesis by simp
  qed
qed

lemma find_by_id_distinct:
  assumes "distinct (map f xs)" and "y \<in> set xs"
  shows "find (\<lambda>x. f x = f y) xs = Some y"
proof -
  obtain z where z: "find (\<lambda>x. f x = f y) xs = Some z"
    using assms(2) by (cases "find (\<lambda>x. f x = f y) xs") (auto simp: find_None_iff)
  then have "z \<in> set xs" "f z = f y" by (auto simp: find_Some_iff)
  with assms have "z = y" by (auto simp: distinct_map inj_on_def)
  with z show ?thesis by simp
qed

text \<open>One iteration of the merge loop for a guest row whose item the user already has.\<close>

lemma merge_step_matched:
  assumes pk: "distinct (map cart_id cs)"
    and g: "g \<in> set cs" "cart_user_id g \<noteq> Some uid"
    and e: "find (\<lambda>c. cart_user_id c = Some uid \<and> cart_menu_item_id c = cart_menu_item_id g) cs = Some e"
  shows "\<exists>e2. merge_step uid (cart_id g) cs = map (\<lambda>c. if c = e then e2 else c) cs
           \<and> cart_key e2 = cart_key e
           \<and> cart_quantity e2 = cart_quantity e + cart_quantity g
           \<and> e \<in> set cs \<and> cart_user_id e = Some uid \<and> cart_menu_item_id e = cart_menu_item_id g"
proof -
  have fg: "find (\<lambda>c. cart_id c = cart_id g) cs = Some g"
    using find_by_id_distinct[OF pk g(1)] .
  from e have emem: "e \<in> set cs" and eu: "cart_user_id e = Some uid"
    and ei: "cart_menu_item_id e = cart_menu_item_id g"
    by (auto simp: find_Some_iff)
  define e2 where "e2 =
    (let item1 = e\<lparr>cart_quantity := cart_quantity e + cart_quantity g\<rparr>
     in if truthy_str (cart_notes g) \<and> \<not> truthy_str (cart_notes e)
        then item1\<lparr>cart_notes := cart_notes g\<rparr> else item1)"
  have "merge_step uid (cart_id g) cs = map (\<lambda>c. if cart_id c = cart_id e then e2 else c) cs"
    using fg e by (simp add: merge_step_def e2_def Let_def)
  also have "\<dots> = map (\<lambda>c. if c = e then e2 else c) cs"
    by (rule map_update_key_distinct[OF pk emem])
  finally have step: "merge_step uid (cart_id g) cs = map (\<lambda>c. if c = e then e2 else c) cs" .
  have "cart_key e2 = cart_key e" "cart_quantity e2 = cart_quantity e + cart_quantity g"
    by (simp_all add: e2_def cart_key_def Let_def)
  with step emem eu ei show ?thesis by blast
qed


lemma ex_by_key:
  assumes "map cart_key cs1 = map cart_key cs"
  shows "(\<exists>c\<in>set cs1. Q (cart_key c)) = (\<exists>c\<in>set cs. Q (cart_key c))"
proof -
  have img: "cart_key ` set cs1 = cart_key ` set cs"
    using assms by (metis set_map)
  have "(\<exists>c\<in>set cs1. Q (cart_key c)) = (\<exists>k\<in>cart_key ` set cs1. Q k)" by blast
  also have "\<dots> = (\<exists>k\<in>cart_key ` set cs. Q k)" unfolding img ..
  also have "\<dots> = (\<exists>c\<in>set cs. Q (cart_key c))" by blast
  finally show ?thesis .
qed

lemma same_keys:
  assumes k: "map cart_key cs1 = map cart_key cs"
  shows "map cart_id cs1 = map cart_id cs"
    and "violates_not_null cs1 = violates_not_null cs"
    and "has_user_row uid m cs1 = has_user_row uid m cs"
    and "(\<forall>c\<in>set cs1. cart_session_id c = Some sid \<longrightarrow> cart_user_id c \<noteq> Some uid)
       = (\<forall>c\<in>set cs. cart_session_id c = Some sid \<longrightarrow> cart_user_id c \<noteq> Some uid)"
proof -
  have "map (fst \<circ> cart_key) cs1 = map (fst \<circ> cart_key) cs"
    using k by (metis map_map)
  then show "map cart_id cs1 = map cart_id cs" by (simp add: cart_key_def comp_def)
  show "violates_not_null cs1 = violates_not_null cs"
    using ex_by_key[OF k, of "\<lambda>k. fst (snd k) = None"]
    by (simp add: violates_not_null_iff cart_key_def)
  show "has_user_row uid m cs1 = has_user_row uid m cs"
    using ex_by_key[OF k, of "\<lambda>k. fst (snd (snd k)) = Some uid \<and> snd (snd (snd k)) = m"]
    by (simp add: has_user_row_def list_ex_iff cart_key_def)
  show "(\<forall>c\<in>set cs1. cart_session_id c = Some sid \<longrightarrow> cart_user_id c \<noteq> Some uid)
       = (\<forall>c\<in>set cs. cart_session_id c = Some sid \<longrightarrow> cart_user_id c \<noteq> Some uid)"
    using ex_by_key[OF k, of "\<lambda>k. fst (snd k) = Some sid \<and> fst (snd (snd k)) = Some uid"]
    by (simp add: cart_key_def) blast
qed

lemma has_user_row_find:
  "has_user_row uid m cs \<Longrightarrow>
     \<exists>e. find (\<lambda>c. cart_user_id c = Some uid \<and> cart_menu_item_id c = m) cs = Some e"
  by (cases "find (\<lambda>c. cart_user_id c = Some uid \<and> cart_menu_item_id c = m) cs")
     (auto simp: has_user_row_def list_ex_iff find_None_iff)

lemma no_user_row_find:
  "\<not> has_user_row uid m cs \<Longrightarrow>
     find (\<lambda>c. cart_user_id c = Some uid \<and> cart_menu_item_id c = m) cs = None"
  by (auto simp: has_user_row_def list_ex_iff find_None_iff)

text \<open>The effect of a matched iteration on the tables the claim speaks of.\<close>

lemma merge_step_matched_effect:
  assumes pk: "distinct (map cart_id cs)"
    and own: "\<forall>c\<in>set cs. cart_session_id c = Some sid \<longrightarrow> cart_user_id c \<noteq> Some uid"
    and g: "g \<in> set cs" "cart_session_id g = Some sid"
    and m: "has_user_row uid (cart_menu_item_id g) cs"
  shows "map cart_key (merge_step uid (cart_id g) cs) = map cart_key cs"
    and "guest_rows sid (merge_step uid (cart_id g) cs) = guest_rows sid cs"
    and "user_quantity uid m' (merge_step uid (cart_id g) cs)
           = user_quantity uid m' cs + (if cart_menu_item_id g = m' then cart_quantity g else 0)"
proof -
  from own g have gu: "cart_user_id g \<noteq> Some uid" by blast
  from has_user_row_find[OF m] obtain e where
    e: "find (\<lambda>c. cart_user_id c = Some uid \<and> cart_menu_item_id c = cart_menu_item_id g) cs = Some e"
    by blast
  from merge_step_matched[OF pk g(1) gu e] obtain e2 where
    step: "merge_step uid (cart_id g) cs = map (\<lambda>c. if c = e then e2 else c) cs"
    and key: "cart_key e2 = cart_key e"
    and qty: "cart_quantity e2 = cart_quantity e + cart_quantity g"
    and emem: "e \<in> set cs" and eu: "cart_user_id e = Some uid"
    and ei: "cart_menu_item_id e = cart_menu_item_id g"
    by blast
  from key have e2u: "cart_user_id e2 = Some uid" and e2i: "cart_menu_item_id e2 = cart_menu_item_id g"
    and e2s: "cart_session_id e2 = cart_session_id e"
    using eu ei by (simp_all add: cart_key_def)
  show "map cart_key (merge_step uid (cart_id g) cs) = map cart_key cs"
    unfolding step by (rule map_replace_key) (simp add: key)
  from own emem eu have es: "cart_session_id e \<noteq> Some sid" by blast
  show "guest_rows sid (merge_step uid (cart_id g) cs) = guest_rows sid cs"
    unfolding step guest_rows_def by (rule filter_replace_outside) (simp_all add: es e2s)
  show "user_quantity uid m' (merge_step uid (cart_id g) cs)
           = user_quantity uid m' cs + (if cart_menu_item_id g = m' then cart_quantity g else 0)"
  proof (cases "cart_menu_item_id g = m'")
    case True
    have d: "distinct cs" using pk by (simp add: distinct_map)
    have "user_quantity uid m' (map (\<lambda>c. if c = e then e2 else c) cs)
            = user_quantity uid m' cs + cart_quantity e2 - cart_quantity e"
      unfolding user_quantity_def
      by (rule sum_replace_inside[OF d emem]) (simp_all add: eu ei e2u e2i True)
    with True qty show ?thesis by (simp add: step)
  next
    case False
    have "filter (\<lambda>c. cart_user_id c = Some uid \<and> cart_menu_item_id c = m') (map (\<lambda>c. if c = e then e2 else c) cs)
            = filter (\<lambda>c. cart_user_id c = Some uid \<and> cart_menu_item_id c = m') cs"
      by (rule filter_replace_outside) (simp_all add: ei e2i False)
    with False show ?thesis by (simp add: step user_quantity_def)
  qed
qed

text \<open>All iterations of the loop when every guest row is matched.\<close>

lemma merge_steps_matched:
  assumes "distinct (map cart_id cs)"
    and "\<forall>c\<in>set cs. cart_session_id c = Some sid \<longrightarrow> cart_user_id c \<noteq> Some uid"
    and "set gs \<subseteq> set (guest_rows sid cs)"
    and "\<forall>g\<in>set gs. has_user_row uid (cart_menu_item_id g) cs"
  shows "map cart_key (fold (merge_step uid) (map cart_id gs) cs) = map cart_key cs
       \<and> guest_rows sid (fold (merge_step uid) (map cart_id gs) cs) = guest_rows sid cs
       \<and> (\<forall>m. user_quantity uid m (fold (merge_step uid) (map cart_id gs) cs)
               = user_quantity uid m cs
                 + sum_list (map cart_quantity (filter (\<lambda>g. cart_menu_item_id g = m) gs)))"
  using assms
proof (induction gs arbitrary: cs)
  case Nil
  then show ?case by simp
next
  case (Cons g gs)
  let ?cs1 = "merge_step uid (cart_id g) cs"
  from Cons.prems(3) have g: "g \<in> set cs" "cart_session_id g = Some sid"
    by (auto simp: guest_rows_def)
  from Cons.prems(4) have m: "has_user_row uid (cart_menu_item_id g) cs" by simp
  note eff = merge_step_matched_effect[OF Cons.prems(1) Cons.prems(2) g m]
  note same = same_keys[OF eff(1)]
  have pk1: "distinct (map cart_id ?cs1)" using Cons.prems(1) same(1) by simp
  have own1: "\<forall>c\<in>set ?cs1. cart_session_id c = Some sid \<longrightarrow> cart_user_id c \<noteq> Some uid"
    using Cons.prems(2) same(4)[of sid uid] by simp
  have gs1: "set gs \<subseteq> set (guest_rows sid ?cs1)" using Cons.prems(3) eff(2) by simp
  have m1: "\<forall>g\<in>set gs. has_user_row uid (cart_menu_item_id g) ?cs1"
    using Cons.prems(4) same(3) by simp
  from Cons.IH[OF pk1 own1 gs1 m1] eff show ?case by (auto simp: algebra_simps)
qed


lemma violates_after_replace:
  assumes "g \<in> set cs" and "P g" and "cart_session_id y = None"
  shows "violates_not_null (map (\<lambda>c. if P c then y else c) cs)"
proof -
  have "(\<lambda>c. if P c then y else c) g \<in> set (map (\<lambda>c. if P c then y else c) cs)"
    using assms(1) by (simp only: set_map) (rule imageI)
  with assms(2) have "y \<in> set (map (\<lambda>c. if P c then y else c) cs)" by simp
  with assms(3) show ?thesis unfolding violates_not_null_iff by blast
qed

text \<open>An iteration keeps the primary keys, and a row without session id stays one.\<close>

lemma merge_step_ids: "map cart_id (merge_step uid gid cs) = map cart_id cs"
proof (cases "find (\<lambda>c. cart_id c = gid) cs")
  case None
  then show ?thesis by (simp add: merge_step_def)
next
  case (Some g)
  then have gid: "cart_id g = gid" by (auto simp: find_Some_iff)
  show ?thesis
  proof (cases "find (\<lambda>c. cart_user_id c = Some uid \<and> cart_menu_item_id c = cart_menu_item_id g) cs")
    case None
    with Some gid show ?thesis by (simp add: merge_step_def comp_def)
  next
    case (Some e)
    with \<open>find (\<lambda>c. cart_id c = gid) cs = Some g\<close> show ?thesis
      by (simp add: merge_step_def Let_def comp_def)
  qed
qed

lemma merge_step_sticky:
  assumes pk: "distinct (map cart_id cs)" and v: "violates_not_null cs"
  shows "violates_not_null (merge_step uid gid cs)"
proof (cases "find (\<lambda>c. cart_id c = gid) cs")
  case None
  with v show ?thesis by (simp add: merge_step_def)
next
  case (Some g)
  then have gmem: "g \<in> set cs" and gid: "cart_id g = gid" by (auto simp: find_Some_iff)
  show ?thesis
  proof (cases "find (\<lambda>c. cart_user_id c = Some uid \<and> cart_menu_item_id c = cart_menu_item_id g) cs")
    case None
    with Some have "merge_step uid gid cs
        = map (\<lambda>c. if cart_id c = gid then g\<lparr>cart_user_id := Some uid, cart_session_id := None\<rparr> else c) cs"
      by (simp add: merge_step_def)
    with gmem gid show ?thesis
      by (simp add: violates_after_replace)
  next
    case (Some e)
    then have emem: "e \<in> set cs" by (auto simp: find_Some_iff)
    define e2 where "e2 =
      (let item1 = e\<lparr>cart_quantity := cart_quantity e + cart_quantity g\<rparr>
       in if truthy_str (cart_notes g) \<and> \<not> truthy_str (cart_notes e)
          then item1\<lparr>cart_notes := cart_notes g\<rparr> else item1)"
    have s2: "cart_session_id e2 = cart_session_id e" by (simp add: e2_def Let_def)
    have "merge_step uid gid cs = map (\<lambda>c. if cart_id c = cart_id e then e2 else c) cs"
      using Some \<open>find (\<lambda>c. cart_id c = gid) cs = Some g\<close>
      by (simp add: merge_step_def e2_def Let_def)
    also have "\<dots> = map (\<lambda>c. if c = e then e2 else c) cs"
      by (rule map_update_key_distinct[OF pk emem])
    finally have step: "merge_step uid gid cs = map (\<lambda>c. if c = e then e2 else c) cs" .
    from v obtain c0 where c0: "c0 \<in> set cs" "cart_session_id c0 = None"
      by (auto simp: violates_not_null_iff)
    show ?thesis
    proof (cases "c0 = e")
      case True
      with c0 s2 have "cart_session_id e2 = None" by simp
      with emem show ?thesis unfolding step by (simp add: violates_after_replace)
    next
      case False
      have "(\<lambda>c. if c = e then e2 else c) c0 \<in> set (map (\<lambda>c. if c = e then e2 else c) cs)"
        using c0(1) by (simp only: set_map) (rule imageI)
      with False have "c0 \<in> set (map (\<lambda>c. if c = e then e2 else c) cs)" by simp
      with c0(2) show ?thesis unfolding step violates_not_null_iff by blast
    qed
  qed
qed

lemma merge_steps_sticky:
  "distinct (map cart_id cs) \<Longrightarrow> violates_not_null cs \<Longrightarrow> violates_not_null (fold (merge_step uid) gids cs)"
proof (induction gids arbitrary: cs)
  case Nil
  then show ?case by simp
next
  case (Cons gid gids)
  have "distinct (map cart_id (merge_step uid gid cs))"
    using Cons.prems(1) by (simp add: merge_step_ids)
  moreover have "violates_not_null (merge_step uid gid cs)"
    using Cons.prems by (rule merge_step_sticky)
  ultimately show ?case using Cons.IH by simp
qed

text \<open>An unmatched guest row is re-owned, which clears its session id.\<close>

lemma merge_step_unmatched:
  assumes pk: "distinct (map cart_id cs)" and g: "g \<in> set cs"
    and m: "\<not> has_user_row uid (cart_menu_item_id g) cs"
  shows "violates_not_null (merge_step uid (cart_id g) cs)"
proof -
  have "find (\<lambda>c. cart_id c = cart_id g) cs = Some g"
    using find_by_id_distinct[OF pk g] .
  with no_user_row_find[OF m] have "merge_step uid (cart_id g) cs
      = map (\<lambda>c. if cart_id c = cart_id g then g\<lparr>cart_user_id := Some uid, cart_session_id := None\<rparr> else c) cs"
    by (simp add: merge_step_def)
  with g show ?thesis by (simp add: violates_after_replace)
qed

text \<open>So iterations that end without such a row have matched every guest row.\<close>

lemma merge_steps_completed_matched:
  assumes "distinct (map cart_id cs)"
    and "\<forall>c\<in>set cs. cart_session_id c = Some sid \<longrightarrow> cart_user_id c \<noteq> Some uid"
    and "set gs \<subseteq> set (guest_rows sid cs)"
    and "\<not> violates_not_null (fold (merge_step uid) (map cart_id gs) cs)"
  shows "\<forall>g\<in>set gs. has_user_row uid (cart_menu_item_id g) cs"
  using assms
proof (induction gs arbitrary: cs)
  case Nil
  then show ?case by simp
next
  case (Cons g gs)
  let ?cs1 = "merge_step uid (cart_id g) cs"
  from Cons.prems(3) have g: "g \<in> set cs" "cart_session_id g = Some sid"
    by (auto simp: guest_rows_def)
  have pk1: "distinct (map cart_id ?cs1)" using Cons.prems(1) by (simp add: merge_step_ids)
  have m: "has_user_row uid (cart_menu_item_id g) cs"
  proof (rule ccontr)
    assume "\<not> has_user_row uid (cart_menu_item_id g) cs"
    then have "violates_not_null ?cs1" by (rule merge_step_unmatched[OF Cons.prems(1) g(1)])
    then have "violates_not_null (fold (merge_step uid) (map cart_id gs) ?cs1)"
      by (rule merge_steps_sticky[OF pk1])
    with Cons.prems(4) show False by simp
  qed
  note eff = merge_step_matched_effect[OF Cons.prems(1) Cons.prems(2) g m]
  note same = same_keys[OF eff(1)]
  have own1: "\<forall>c\<in>set ?cs1. cart_session_id c = Some sid \<longrightarrow> cart_user_id c \<noteq> Some uid"
    using Cons.prems(2) same(4)[of sid uid] by simp
  have gs1: "set gs \<subseteq> set (guest_rows sid ?cs1)" using Cons.prems(3) eff(2) by simp
  have ok1: "\<not> violates_not_null (fold (merge_step uid) (map cart_id gs) ?cs1)"
    using Cons.prems(4) by simp
  from Cons.IH[OF pk1 own1 gs1 ok1] same(3) m show ?case by simp
qed

lemma guest_quantity_rows:
  "sum_list (map cart_quantity (filter (\<lambda>g. cart_menu_item_id g = m) (guest_rows sid cs)))
     = guest_quantity sid m cs"
  by (simp add: guest_rows_def guest_quantity_def conj_commute)

text \<open>The loop returns the rows its iterations compute, unless a flush on the way raises.\<close>

lemma merge_items_result:
  "merge_items uid gids cs = Inr cs' \<Longrightarrow> cs' = fold (merge_step uid) gids cs"
  by (induction gids arbitrary: cs) (auto split: option.splits)

text \<open>
  A merge is refused as soon as one guest row's item is not in the user's cart, also when
  other guest rows are matched: by the flush that finds the re-owned row, if not by an
  earlier one.
\<close>

lemma merge_cart_refused_when_unmatched:
  assumes pk: "distinct (map cart_id (carts s))"
    and own: "\<forall>c\<in>set (carts s). cart_session_id c = Some sid \<longrightarrow> cart_user_id c \<noteq> Some uid"
    and unmatched: "\<exists>g\<in>set (guest_rows sid (carts s)). \<not> has_user_row uid (cart_menu_item_id g) (carts s)"
  shows "\<exists>e. merge_cart uid sid s = (s, Inl (Unhandled e))"
proof -
  let ?gs = "guest_rows sid (carts s)"
  from unmatched have ne: "filter (\<lambda>c. cart_session_id c = Some sid) (carts s) \<noteq> []"
    by (auto simp: guest_rows_def filter_empty_conv)
  have sub: "set ?gs \<subseteq> set (guest_rows sid (carts s))" by simp
  have v: "violates_not_null (fold (merge_step uid) (map cart_id ?gs) (carts s))"
    using merge_steps_completed_matched[OF pk own sub] unmatched by blast
  show ?thesis
  proof (cases "merge_items uid (map cart_id ?gs) (carts s)")
    case (Inl e)
    with ne show ?thesis by (simp add: merge_cart_def guest_rows_def)
  next
    case (Inr cs1)
    then have "cs1 = fold (merge_step uid) (map cart_id ?gs) (carts s)" by (rule merge_items_result)
    with v obtain e where "flush_cart cs1 = Some e" using flush_cart_refuses by blast
    with Inr ne show ?thesis by (simp add: merge_cart_def guest_rows_def)
  qed
qed

text \<open>
  A merge that completes, in a cart table with unique ids where no row of the guest session
  is also a row of the user: every guest row's item was already in the user's cart; the
  guest rows are afterwards exactly what they were (not deleted, still owned by the
  session, same quantities); and for every menu item the user's quantity has grown by the
  guest's quantity.
\<close>

lemma merge_cart_completed_effect:
  assumes run: "merge_cart uid sid s = (s', Inr r)"
    and pk: "distinct (map cart_id (carts s))"
    and own: "\<forall>c\<in>set (carts s). cart_session_id c = Some sid \<longrightarrow> cart_user_id c \<noteq> Some uid"
  shows "(\<forall>g\<in>set (guest_rows sid (carts s)). has_user_row uid (cart_menu_item_id g) (carts s))
       \<and> map cart_key (carts s') = map cart_key (carts s)
       \<and> guest_rows sid (carts s') = guest_rows sid (carts s)
       \<and> (\<forall>m. user_quantity uid m (carts s')
               = user_quantity uid m (carts s) + guest_quantity sid m (carts s))"
proof (cases "guest_rows sid (carts s) = []")
  case True
  then have "merge_cart uid sid s = (s, Inr NoGuestItems)"
    by (simp add: merge_cart_def guest_rows_def)
  with run have "s' = s" by simp
  moreover have "guest_quantity sid m (carts s) = 0" for m
    using True guest_quantity_rows[of m sid "carts s"] by simp
  ultimately show ?thesis using True by simp
next
  case False
  let ?gs = "guest_rows sid (carts s)"
  let ?cs1 = "fold (merge_step uid) (map cart_id ?gs) (carts s)"
  from run False obtain cs1 where loop: "merge_items uid (map cart_id ?gs) (carts s) = Inr cs1"
    and fl: "flush_cart cs1 = None" and s': "s' = s\<lparr>carts := cs1\<rparr>"
    by (auto simp: merge_cart_def guest_rows_def split: sum.splits option.splits)
  from loop have cs1: "cs1 = ?cs1" by (rule merge_items_result)
  from fl have ok: "\<not> violates_not_null ?cs1" by (simp add: flush_cart_None_iff cs1)
  have sub: "set ?gs \<subseteq> set (guest_rows sid (carts s))" by simp
  have matched: "\<forall>g\<in>set ?gs. has_user_row uid (cart_menu_item_id g) (carts s)"
    using merge_steps_completed_matched[OF pk own sub ok] .
  note first = merge_steps_matched[OF pk own sub matched]
  have q1: "user_quantity uid m ?cs1 = user_quantity uid m (carts s) + guest_quantity sid m (carts s)" for m
    using first guest_quantity_rows[of m sid "carts s"] by simp
  from matched first q1 show ?thesis by (simp add: s' cs1)
qed

text \<open>
  So two merges for the same session that both complete add the guest quantities twice.
\<close>

lemma merge_cart_twice_effect:
  assumes run1: "merge_cart uid sid s = (s1, Inr r1)"
    and run2: "merge_cart uid sid s1 = (s2, Inr r2)"
    and pk: "distinct (map cart_id (carts s))"
    and own: "\<forall>c\<in>set (carts s). cart_session_id c = Some sid \<longrightarrow> cart_user_id c \<noteq> Some uid"
  shows "guest_rows sid (carts s2) = guest_rows sid (carts s)
       \<and> (\<forall>m. user_quantity uid m (carts s2)
               = user_quantity uid m (carts s) + 2 * guest_quantity sid m (carts s))"
proof -
  note first = merge_cart_completed_effect[OF run1 pk own]
  note same = same_keys[OF first[THEN conjunct2, THEN conjunct1]]
  have pk1: "distinct (map cart_id (carts s1))" using pk same(1) by simp
  have own1: "\<forall>c\<in>set (carts s1). cart_session_id c = Some sid \<longrightarrow> cart_user_id c \<noteq> Some uid"
    using own same(4)[of sid uid] by simp
  note second = merge_cart_completed_effect[OF run2 pk1 own1]
  have gq: "guest_quantity sid m (carts s1) = guest_quantity sid m (carts s)" for m
    using guest_quantity_rows[of m sid "carts s1"] guest_quantity_rows[of m sid "carts s"] first
    by simp
  from first second gq show ?thesis by simp
qed

text \<open>
  A merge in which the one guest row is matched: it completes, the guest row stays, and
  the second merge adds its quantity again (2, then 5, then 8). The sum must fit the
  column: with 2147483645 in the user's row the merge is refused.
\<close>

lemma merge_cart_matched_example:
  "merge_cart 7 ''g1'' db_merge
     = (db_merge\<lparr>carts := [user_row\<lparr>cart_quantity := 5, cart_notes := Some ''no onion''\<rparr>, guest_row]\<rparr>,
        Inr (Merged [user_row\<lparr>cart_quantity := 5, cart_notes := Some ''no onion''\<rparr>]))
   \<and> merge_cart 7 ''g1''
        (db_merge\<lparr>carts := [user_row\<lparr>cart_quantity := 5, cart_notes := Some ''no onion''\<rparr>, guest_row]\<rparr>)
     = (db_merge\<lparr>carts := [user_row\<lparr>cart_quantity := 8, cart_notes := Some ''no onion''\<rparr>, guest_row]\<rparr>,
        Inr (Merged [user_row\<lparr>cart_quantity := 8, cart_notes := Some ''no onion''\<rparr>]))
   \<and> merge_cart 7 ''g1'' (db_merge\<lparr>carts := [user_row\<lparr>cart_quantity := 2147483645\<rparr>, guest_row]\<rparr>)
     = (db_merge\<lparr>carts := [user_row\<lparr>cart_quantity := 2147483645\<rparr>, guest_row]\<rparr>,
        Inl (Unhandled DataError))"
  by (simp add: merge_cart_def merge_step_def flush_cart_def quantity_out_of_range_def
      violates_not_null_def INTEGER_MIN_def INTEGER_MAX_def get_cart_items_def
      truthy_str_def falsy_str_def db_merge_def user_row_def guest_row_def Let_def)

text \<open>
  With a second guest row for the same item, both rows are matched and the merge adds
  both quantities (2 + 3 + 4 = 9).
\<close>

lemma merge_cart_two_matched_rows_example:
  "merge_cart 7 ''g1'' (db_merge\<lparr>carts := [user_row, guest_row, guest_row\<lparr>cart_id := 3, cart_quantity := 4\<rparr>]\<rparr>)
     = (db_merge\<lparr>carts := [user_row\<lparr>cart_quantity := 9, cart_notes := Some ''no onion''\<rparr>,
                              guest_row, guest_row\<lparr>cart_id := 3, cart_quantity := 4\<rparr>]\<rparr>,
        Inr (Merged [user_row\<lparr>cart_quantity := 9, cart_notes := Some ''no onion''\<rparr>]))"
  by (simp add: merge_cart_def merge_step_def flush_cart_def quantity_out_of_range_def
      violates_not_null_def INTEGER_MIN_def INTEGER_MAX_def get_cart_items_def
      truthy_str_def falsy_str_def db_merge_def user_row_def guest_row_def Let_def)

text \<open>
  C9. The claim fails on a cart it speaks of. Guest session \<open>g1\<close> holds a row for menu
  item 1, which user 7 has in the cart as well, and a row for menu item 2, which user 7
  has not. The loop adds the quantity of the first row to the user's row and then re-owns
  the second row, which clears its session id; the commit is refused, the request is
  answered 500 and nothing of the merge is stored: the guest quantity 3 is not added, and
  the user's quantity of item 1 is 2 as before.
\<close>

theorem merge_cart_mixed_cart_refused:
  "guest_rows ''g1'' (carts db_merge_mixed) = [guest_row, guest_row_b]
   \<and> has_user_row 7 (cart_menu_item_id guest_row) (carts db_merge_mixed)
   \<and> user_quantity 7 1 (carts db_merge_mixed) = 2
   \<and> guest_quantity ''g1'' 1 (carts db_merge_mixed) = 3
   \<and> merge_cart 7 ''g1'' db_merge_mixed = (db_merge_mixed, Inl (Unhandled IntegrityError))
   \<and> http_status (Unhandled IntegrityError) = 500"
  by (simp add: merge_cart_def merge_step_def flush_cart_def quantity_out_of_range_def
      violates_not_null_def INTEGER_MIN_def INTEGER_MAX_def guest_rows_def has_user_row_def
      user_quantity_def guest_quantity_def truthy_str_def falsy_str_def db_merge_mixed_def
      db_merge_def user_row_def guest_row_def guest_row_b_def Let_def)

subsection \<open>Reorder\<close>

text \<open>\<open>reorder\<close> never reads the menu.\<close>

lemma reorder_ignores_menu:
  "snd (reorder uid order_id (s\<lparr>menu_items := menu\<rparr>)) = snd (reorder uid order_id s)
   \<and> carts (fst (reorder uid order_id (s\<lparr>menu_items := menu\<rparr>))) = carts (fst (reorder uid order_id s))"
  by (simp add: reorder_def Let_def split: option.splits sum.splits)

text \<open>
  In general: an iteration of the reorder loop keeps the primary keys distinct, keeps a
  row without session id, and adds such a row when the user has none for the item.
\<close>

lemma reorder_step_distinct:
  assumes "distinct (map cart_id cs)"
  shows "distinct (map cart_id (reorder_step uid order_item cs))"
proof (cases "find (\<lambda>c. cart_user_id c = Some uid \<and> cart_menu_item_id c = oi_menu_item_id order_item) cs")
  case None
  with assms next_id_fresh[of "map cart_id cs"] show ?thesis
    by (simp add: reorder_step_def)
next
  case (Some e)
  then have "map cart_id (reorder_step uid order_item cs) = map cart_id cs"
    by (simp add: reorder_step_def Let_def comp_def)
  with assms show ?thesis by simp
qed

lemma reorder_step_unmatched:
  assumes "\<not> has_user_row uid (oi_menu_item_id order_item) cs"
  shows "violates_not_null (reorder_step uid order_item cs)"
  using no_user_row_find[OF assms]
  by (simp add: reorder_step_def violates_not_null_iff)

lemma reorder_step_sticky:
  assumes pk: "distinct (map cart_id cs)" and v: "violates_not_null cs"
  shows "violates_not_null (reorder_step uid order_item cs)"
proof (cases "find (\<lambda>c. cart_user_id c = Some uid \<and> cart_menu_item_id c = oi_menu_item_id order_item) cs")
  case None
  then show ?thesis by (simp add: reorder_step_def violates_not_null_iff)
next
  case (Some e)
  then have emem: "e \<in> set cs" by (auto simp: find_Some_iff)
  define e2 where "e2 = e\<lparr>cart_quantity := cart_quantity e + oi_quantity order_item\<rparr>"
  have "reorder_step uid order_item cs = map (\<lambda>c. if cart_id c = cart_id e then e2 else c) cs"
    using Some by (simp add: reorder_step_def e2_def Let_def)
  also have "\<dots> = map (\<lambda>c. if c = e then e2 else c) cs"
    by (rule map_update_key_distinct[OF pk emem])
  finally have step: "reorder_step uid order_item cs = map (\<lambda>c. if c = e then e2 else c) cs" .
  from v obtain c0 where c0: "c0 \<in> set cs" "cart_session_id c0 = None"
    by (auto simp: violates_not_null_iff)
  show ?thesis
  proof (cases "c0 = e")
    case True
    with c0 have "cart_session_id e2 = None" by (simp add: e2_def)
    with emem show ?thesis unfolding step by (simp add: violates_after_replace)
  next
    case False
    have "(\<lambda>c. if c = e then e2 else c) c0 \<in> set (map (\<lambda>c. if c = e then e2 else c) cs)"
      using c0(1) by (simp only: set_map) (rule imageI)
    with False have "c0 \<in> set (map (\<lambda>c. if c = e then e2 else c) cs)" by simp
    with c0(2) show ?thesis unfolding step violates_not_null_iff by blast
  qed
qed

lemma reorder_steps_sticky:
  "distinct (map cart_id cs) \<Longrightarrow> violates_not_null cs \<Longrightarrow> violates_not_null (fold (reorder_step uid) items cs)"
proof (induction items arbitrary: cs)
  case Nil
  then show ?case by simp
next
  case (Cons order_item rest)
  have "distinct (map cart_id (reorder_step uid order_item cs))"
    using Cons.prems(1) by (rule reorder_step_distinct)
  moreover have "violates_not_null (reorder_step uid order_item cs)"
    using Cons.prems by (rule reorder_step_sticky)
  ultimately show ?case using Cons.IH by simp
qed

lemma reorder_step_matched_keys:
  assumes pk: "distinct (map cart_id cs)"
    and m: "has_user_row uid (oi_menu_item_id order_item) cs"
  shows "map cart_key (reorder_step uid order_item cs) = map cart_key cs"
proof -
  from has_user_row_find[OF m] obtain e where
    e: "find (\<lambda>c. cart_user_id c = Some uid \<and> cart_menu_item_id c = oi_menu_item_id order_item) cs = Some e"
    by blast
  then have emem: "e \<in> set cs" by (auto simp: find_Some_iff)
  define e2 where "e2 = e\<lparr>cart_quantity := cart_quantity e + oi_quantity order_item\<rparr>"
  have "reorder_step uid order_item cs = map (\<lambda>c. if cart_id c = cart_id e then e2 else c) cs"
    using e by (simp add: reorder_step_def e2_def Let_def)
  also have "\<dots> = map (\<lambda>c. if c = e then e2 else c) cs"
    by (rule map_update_key_distinct[OF pk emem])
  finally have step: "reorder_step uid order_item cs = map (\<lambda>c. if c = e then e2 else c) cs" .
  have "cart_key e2 = cart_key e" by (simp add: e2_def cart_key_def)
  then show ?thesis unfolding step by (intro map_replace_key) simp
qed

text \<open>So the iterations leave a row without session id as soon as one item of the order is
  not in the cart yet.\<close>

lemma reorder_steps_missing:
  assumes "distinct (map cart_id cs)"
    and "\<exists>i\<in>set items. \<not> has_user_row uid (oi_menu_item_id i) cs"
  shows "violates_not_null (fold (reorder_step uid) items cs)"
  using assms
proof (induction items arbitrary: cs)
  case Nil
  then show ?case by simp
next
  case (Cons order_item rest)
  let ?cs1 = "reorder_step uid order_item cs"
  have pk1: "distinct (map cart_id ?cs1)" using Cons.prems(1) by (rule reorder_step_distinct)
  show ?case
  proof (cases "has_user_row uid (oi_menu_item_id order_item) cs")
    case False
    then have "violates_not_null ?cs1" by (rule reorder_step_unmatched)
    then show ?thesis using reorder_steps_sticky[OF pk1] by simp
  next
    case True
    note same = same_keys[OF reorder_step_matched_keys[OF Cons.prems(1) True]]
    from Cons.prems(2) True have "\<exists>i\<in>set rest. \<not> has_user_row uid (oi_menu_item_id i) cs" by auto
    with same(3) have "\<exists>i\<in>set rest. \<not> has_user_row uid (oi_menu_item_id i) ?cs1" by simp
    from Cons.IH[OF pk1 this] show ?thesis by simp
  qed
qed

lemma reorder_items_result:
  "reorder_items uid items cs = Inr cs' \<Longrightarrow> cs' = fold (reorder_step uid) items cs"
  by (induction items arbitrary: cs) (auto split: option.splits)

text \<open>
  And \<open>reorder\<close> is refused: by the flush that finds that row, if not by an earlier one.
\<close>

lemma reorder_refused_when_item_missing:
  assumes "find (\<lambda>r. o_id r = order_id \<and> o_user_id r = uid) (orders s) = Some original_order"
    and "distinct (map cart_id (carts s))"
    and "\<exists>i\<in>set (order_items s). oi_order_id i = order_id
            \<and> \<not> has_user_row uid (oi_menu_item_id i) (carts s)"
  shows "\<exists>e. reorder uid order_id s = (s, Inl (Unhandled e))"
proof -
  from assms(1) have oid: "o_id original_order = order_id" by (auto simp: find_Some_iff)
  let ?items = "filter (\<lambda>i. oi_order_id i = o_id original_order) (order_items s)"
  from assms(3) oid have "\<exists>i\<in>set ?items. \<not> has_user_row uid (oi_menu_item_id i) (carts s)" by auto
  from reorder_steps_missing[OF assms(2) this]
  have v: "violates_not_null (fold (reorder_step uid) ?items (carts s))" .
  show ?thesis
  proof (cases "reorder_items uid ?items (carts s)")
    case (Inl e)
    with assms(1) show ?thesis by (simp add: reorder_def)
  next
    case (Inr cs1)
    then have "cs1 = fold (reorder_step uid) ?items (carts s)" by (rule reorder_items_result)
    with v obtain e where "flush_cart cs1 = Some e" using flush_cart_refuses by blast
    with Inr assms(1) show ?thesis by (simp add: reorder_def)
  qed
qed

text \<open>
  C10. For the delivered order of user 7 and an empty cart, \<open>reorder\<close> is refused: the
  row it builds has no session id, and nothing enters the cart. With the item already in
  the cart, \<open>reorder\<close> completes and raises the quantity of an item that
  \<open>add_to_cart\<close> refuses as unavailable.
\<close>

theorem reorder_new_row_refused:
  "reorder 7 1 db_past_order = (db_past_order, Inl (Unhandled IntegrityError))
   \<and> carts db_past_order = []
   \<and> add_to_cart (Some 7) ''s1'' (Some 3) (Some 2) None db_past_order
        = (db_past_order, Inl (BadRequest ''Menu item is not available''))
   \<and> reorder 7 1 db_past_order_in_cart
        = (db_past_order_in_cart\<lparr>carts := [shawarma_row\<lparr>cart_quantity := 3\<rparr>]\<rparr>,
           Inr [shawarma_row\<lparr>cart_quantity := 3\<rparr>])"
  by (simp add: reorder_def reorder_step_def add_to_cart_def falsy_int_def flush_cart_def
      quantity_out_of_range_def violates_not_null_def INTEGER_MIN_def INTEGER_MAX_def
      db_past_order_in_cart_def db_past_order_def db_menu_def past_order_def past_item_def
      shawarma_row_def shawarma_def koshary_def falafel_def Let_def)

end
